theory Spec2Isabelle
  imports Complex_Main "HOL-Library.Product_Lexorder"
begin

unbundle bit_operations_syntax

section \<open>Bit-level message buffers\<close>

text \<open>
  Fields travel most-significant bit first. \<open>bits_to_nat\<close> reads a field,
  \<open>nat_to_bits n v\<close> is the \<open>n\<close> low bits of \<open>v\<close>.
\<close>

definition bits_to_nat :: "bool list \<Rightarrow> nat" where
  "bits_to_nat bs = foldl (\<lambda>a b. 2 * a + (if b then 1 else 0)) 0 bs"

definition nat_to_bits :: "nat \<Rightarrow> nat \<Rightarrow> bool list" where
  "nat_to_bits n v = map (\<lambda>i. odd (v div 2 ^ (n - 1 - i))) [0..<n]"

definition padTake :: "nat \<Rightarrow> bool list \<Rightarrow> bool list" where
  "padTake n xs = take n xs @ replicate (n - length xs) False"

text \<open>
  Modelled from the spec: \<open>rl::MessageBuffer\<close> (its header is not among the sources).
  The spec (4.1) gives a fixed-capacity byte buffer accessed as a bit stream, with
  \<open>Write(width, value)\<close> / \<open>Read(width)\<close>, bits packed most-significant first, and a
  write overflow reported by a boolean only. \<open>m_data\<close> holds the bits present from
  position 0 (every further bit up to the capacity \<open>m_maxBit\<close> is zero); a read past
  the data yields zero bits and still advances the cursor.
\<close>

record MessageBuffer =
  m_data :: "bool list"
  m_curBit :: nat
  m_maxBit :: nat

definition ReadBits :: "nat \<Rightarrow> MessageBuffer \<Rightarrow> bool list \<times> MessageBuffer" where
  "ReadBits n b =
     (padTake n (drop (m_curBit b) (m_data b)), b\<lparr>m_curBit := m_curBit b + n\<rparr>)"

definition Read :: "nat \<Rightarrow> MessageBuffer \<Rightarrow> nat \<times> MessageBuffer" where
  "Read n b = (bits_to_nat (fst (ReadBits n b)), snd (ReadBits n b))"

definition Write :: "nat \<Rightarrow> nat \<Rightarrow> MessageBuffer \<Rightarrow> bool \<times> MessageBuffer" where
  "Write n v b =
     (if m_curBit b + n \<le> m_maxBit b
      then (True, b\<lparr>m_data := padTake (m_curBit b) (m_data b) @ nat_to_bits n v
                                  @ drop (m_curBit b + n) (m_data b),
                       m_curBit := m_curBit b + n\<rparr>)
      else (False, b))"

definition IsAtEnd :: "MessageBuffer \<Rightarrow> bool" where
  "IsAtEnd b = (m_curBit b \<ge> m_maxBit b)"

definition GetDataLength :: "MessageBuffer \<Rightarrow> nat" where
  "GetDataLength b = m_curBit b div 8 + (if m_curBit b mod 8 = 0 then 0 else 1)"

definition SetCurrentBit :: "nat \<Rightarrow> MessageBuffer \<Rightarrow> MessageBuffer" where
  "SetCurrentBit n b = b\<lparr>m_curBit := n\<rparr>"

definition newMessageBuffer :: "nat \<Rightarrow> MessageBuffer" where
  "newMessageBuffer sz = \<lparr>m_data = [], m_curBit = 0, m_maxBit = 8 * sz\<rparr>"

definition inboundMessageBuffer :: "bool list \<Rightarrow> MessageBuffer" where
  "inboundMessageBuffer bs = \<lparr>m_data = bs, m_curBit = 0, m_maxBit = length bs\<rparr>"

text \<open>
  \<open>LZ4_compressBound\<close> of lz4.h (a library header, not among the sources):
  \<open>isize > LZ4_MAX_INPUT_SIZE ? 0 : isize + isize/255 + 16\<close>.
\<close>

definition LZ4_MAX_INPUT_SIZE :: nat where
  "LZ4_MAX_INPUT_SIZE = 0x7E000000"

definition LZ4_compressBound :: "nat \<Rightarrow> nat" where
  "LZ4_compressBound isize =
     (if isize > LZ4_MAX_INPUT_SIZE then 0 else isize + isize div 255 + 16)"

section \<open>Bitsets\<close>

text \<open>
  An \<open>eastl::bitset<N>\<close> is the set of the indices of its set bits; \<open>set\<close>, \<open>reset\<close>
  and \<open>test\<close> with an index outside \<open>0..N-1\<close> change and report nothing.
\<close>

definition bs_set :: "nat \<Rightarrow> nat \<Rightarrow> nat set \<Rightarrow> nat set" where
  "bs_set N i b = (if i < N then insert i b else b)"

definition bs_reset :: "nat \<Rightarrow> nat \<Rightarrow> nat set \<Rightarrow> nat set" where
  "bs_reset N i b = (if i < N then b - {i} else b)"

definition bs_test :: "nat \<Rightarrow> nat \<Rightarrow> nat set \<Rightarrow> bool" where
  "bs_test N i b = (i < N \<and> i \<in> b)"

definition MaxObjectId :: nat where
  "MaxObjectId = 2 ^ 13"

section \<open>Data model\<close>

text \<open>
  Floats are modelled as reals: rounding, infinities and NaN are outside the model.
  A \<open>glm::mat4x4\<close> is its four columns.
\<close>

type_synonym vec3 = "real \<times> real \<times> real"
type_synonym vec4 = "real \<times> real \<times> real \<times> real"
type_synonym mat4 = "vec4 \<times> vec4 \<times> vec4 \<times> vec4"

datatype NetObjEntityType =
    Automobile | Bike | Boat | Heli | Plane | Submarine | Trailer | Train
  | Ped | Player | Object | OtherType nat

definition isVehicleType :: "NetObjEntityType \<Rightarrow> bool" where
  "isVehicleType t = (t = Automobile \<or> t = Bike \<or> t = Boat \<or> t = Heli \<or> t = Plane
     \<or> t = Submarine \<or> t = Trailer \<or> t = Train)"

record CPlayerCameraNodeData =
  camMode :: int
  freeCamPosX :: real
  freeCamPosY :: real
  freeCamPosZ :: real
  camOffX :: real
  camOffY :: real
  camOffZ :: real
  cameraX :: real
  cameraZ :: real

record CPedGameStateNodeData =
  curVehicle :: int
  curVehicleSeat :: int
  lastVehicle :: int
  lastVehicleSeat :: int

record CVehicleGameStateNodeData =
  occupants :: "int \<Rightarrow> nat"
  playerOccupants :: "nat set"

record NodeBase =
  n_frameIndex :: nat
  ackedPlayers :: "nat set"

text \<open>
  The sync tree is opaque to this file of the program: it is visited node by node, parsed,
  and asked for a position, a camera and the ped/vehicle game state. The model keeps the
  nodes the visitor sees and the data the accessors return.
\<close>

record SyncTree =
  t_nodes :: "NodeBase list"
  t_position :: vec3
  t_playerCamera :: "CPlayerCameraNodeData option"
  t_pedGameState :: "CPedGameStateNodeData option"
  t_vehicleGameState :: "CVehicleGameStateNodeData option"

definition Visit :: "(NodeBase \<Rightarrow> NodeBase) \<Rightarrow> SyncTree \<Rightarrow> SyncTree" where
  "Visit f t = t\<lparr>t_nodes := map f (t_nodes t)\<rparr>"

text \<open>
  \<open>e_client\<close> is the weak pointer to the owning client and \<open>e_guid\<close> the index of the
  entity's script GUID in the pool; \<open>e_data\<close> is the entity's key/value data as far as
  this file reads it (\<open>posX\<close>, \<open>posY\<close>, \<open>posZ\<close>).
\<close>

record SyncEntityState =
  e_data :: "string \<rightharpoonup> real"
  e_client :: "nat option"
  e_type :: NetObjEntityType
  ackedCreation :: "nat set"
  didDeletion :: "nat set"
  e_timestamp :: nat
  e_frameIndex :: nat
  e_lastFrameIndex :: nat
  lastResends :: "nat \<Rightarrow> int"
  lastSyncs :: "nat \<Rightarrow> int"
  e_handle :: nat
  e_syncTree :: "SyncTree option"
  e_guid :: "nat option"
  deleting :: bool

definition GetData :: "SyncEntityState \<Rightarrow> string \<Rightarrow> real \<Rightarrow> real" where
  "GetData e k dflt = (case e_data e k of None \<Rightarrow> dflt | Some v \<Rightarrow> v)"

datatype MsgType = msgPackedAcks | msgPackedClones

datatype NetPacket =
    PackedPacket MsgType nat "bool list"
  | WorldGridPacket
  | ObjectIdsPacket nat "(nat \<times> nat) list"

record GameStateClientData =
  ackBuffer :: MessageBuffer
  objectIds :: "nat set"
  playerEntity :: "nat option"
  playerId :: "int option"
  syncing :: bool
  viewMatrix :: mat4
  idsForGameState :: "(nat \<times> nat) list"
  pendingRemovals :: "nat set"

text \<open>
  A client as this file uses it: net id, slot id (\<open>0xFFFFFFFF\<close> when it has none), the
  entries of its key/value data that this file reads and writes (each with the type it is
  stored with here), its sync data (created on first use by \<open>GetClientDataUnlocked\<close>;
  the model holds the default-constructed value from the start) and the packets sent to it.
\<close>

record Client =
  c_netId :: nat
  c_slotId :: nat
  c_syncTs :: "nat option"
  c_ackTs :: "nat option"
  c_timestamp :: "int option"
  c_playerEntity :: "nat option"
  c_syncData :: GameStateClientData
  c_outbox :: "NetPacket list"

definition noSlot :: nat where
  "noSlot = 0xFFFFFFFF"

datatype LogEntry =
    LogFlushBuffer nat
  | LogReassignEntity nat "nat option" nat
  | LogClientDrop
  | LogNoCandidates nat
  | LogReassigning nat nat
  | LogCloneCreate nat nat
  | LogCloneSync nat nat
  | LogTakeoverReject nat
  | LogTakeoverMigrate nat
  | LogRemoveWrongOwner nat
  | LogRemoveClone nat nat
  | LogDuplicateCreate nat nat NetObjEntityType "nat option" NetObjEntityType
  | LogWrongEntity nat
  | LogWrongOwner nat
  | LogDistanceCull nat nat

datatype ScriptEvent = entityCreated nat | entityRemoved nat

text \<open>
  The state of the program. Entities and clients live in stores indexed by reference;
  a strong reference to an entity is held by \<open>m_entityList\<close> and by a removal that has
  been handed to the script thread (\<open>pendingCloneRemovals\<close>, holding the entity and the
  object id the continuation will release); \<open>liveClients\<close> are the client objects that
  still exist and \<open>registry\<close> those that \<open>ForAllClients\<close> enumerates, in its order.
\<close>

record ServerGameState =
  g_oneSyncVar :: bool
  g_oneSyncCulling :: bool
  g_oneSyncRadiusFrequency :: bool
  g_oneSyncLogVar :: string
  g_logQueue :: "LogEntry list"
  g_scriptHandlePool :: "nat option list"
  m_frameIndex :: nat
  m_entityList :: "nat list"
  m_entitiesById :: "nat \<Rightarrow> nat option"
  m_objectIdsSent :: "nat set"
  m_objectIdsUsed :: "nat set"
  m_objectIdsStolen :: "nat set"
  entities :: "nat \<Rightarrow> SyncEntityState"
  nextEntity :: nat
  pendingCloneRemovals :: "(nat \<times> nat) list"
  clients :: "nat \<Rightarrow> Client"
  liveClients :: "nat set"
  registry :: "nat list"
  queuedEvents :: "ScriptEvent list"

text \<open>
  What the program takes from declarations outside this file: the size of the per-slot
  bitsets, the factory of sync trees, the tree's parser (it may rewrite the tree and the
  entity's data) and the cast of a 4-bit wire value to an entity type.
\<close>

record SyncParseState =
  p_buffer :: "bool list"
  p_syncType :: nat
  p_objType :: nat
  p_frameIndex :: nat

record Externals =
  MAX_CLIENTS :: nat
  MakeSyncTree :: "NetObjEntityType \<Rightarrow> SyncTree option"
  Parse :: "SyncParseState \<Rightarrow> SyncTree \<times> (string \<rightharpoonup> real)
              \<Rightarrow> SyncTree \<times> (string \<rightharpoonup> real)"
  toEntityType :: "nat \<Rightarrow> NetObjEntityType"

section \<open>Stores, weak pointers, logging\<close>

definition updEntity :: "nat \<Rightarrow> (SyncEntityState \<Rightarrow> SyncEntityState) \<Rightarrow> ServerGameState \<Rightarrow> ServerGameState" where
  "updEntity r f s = s\<lparr>entities := (entities s)(r := f (entities s r))\<rparr>"

definition updClient :: "nat \<Rightarrow> (Client \<Rightarrow> Client) \<Rightarrow> ServerGameState \<Rightarrow> ServerGameState" where
  "updClient c f s = s\<lparr>clients := (clients s)(c := f (clients s c))\<rparr>"

definition updClientData :: "nat \<Rightarrow> (GameStateClientData \<Rightarrow> GameStateClientData) \<Rightarrow> ServerGameState \<Rightarrow> ServerGameState" where
  "updClientData c f s = updClient c (\<lambda>cl. cl\<lparr>c_syncData := f (c_syncData cl)\<rparr>) s"

definition GetClientData :: "ServerGameState \<Rightarrow> nat \<Rightarrow> GameStateClientData" where
  "GetClientData s c = c_syncData (clients s c)"

text \<open>\<open>weak_ptr::lock\<close>: the reference, while the object it names still exists.\<close>

definition entityAlive :: "ServerGameState \<Rightarrow> nat \<Rightarrow> bool" where
  "entityAlive s r = (r \<in> set (m_entityList s) \<or> r \<in> fst ` set (pendingCloneRemovals s))"

definition lockEntity :: "ServerGameState \<Rightarrow> nat option \<Rightarrow> nat option" where
  "lockEntity s w = (case w of None \<Rightarrow> None | Some r \<Rightarrow> if entityAlive s r then Some r else None)"

definition lockClient :: "ServerGameState \<Rightarrow> nat option \<Rightarrow> nat option" where
  "lockClient s w = (case w of None \<Rightarrow> None | Some c \<Rightarrow> if c \<in> liveClients s then Some c else None)"

definition GS_LOG :: "LogEntry \<Rightarrow> ServerGameState \<Rightarrow> ServerGameState" where
  "GS_LOG x s = (if g_oneSyncLogVar s \<noteq> [] then s\<lparr>g_logQueue := g_logQueue s @ [x]\<rparr> else s)"

definition SendPacket :: "nat \<Rightarrow> NetPacket \<Rightarrow> ServerGameState \<Rightarrow> ServerGameState" where
  "SendPacket c pkt s = updClient c (\<lambda>cl. cl\<lparr>c_outbox := c_outbox cl @ [pkt]\<rparr>) s"

definition ForAllClients :: "(nat \<Rightarrow> ServerGameState \<Rightarrow> ServerGameState) \<Rightarrow> ServerGameState \<Rightarrow> ServerGameState" where
  "ForAllClients f s = fold f (registry s) s"

definition GetClientByNetID :: "ServerGameState \<Rightarrow> nat \<Rightarrow> nat option" where
  "GetClientByNetID s netId = find (\<lambda>c. c_netId (clients s c) = netId) (registry s)"

section \<open>Flushing a buffer\<close>

text \<open>
  \<open>FlushBuffer\<close>: a non-empty buffer gets the terminator \<open>(3 bits) 7\<close>, its bytes are sent
  to the client as one packet (the LZ4 compression of the payload is not modelled: the
  packet carries the bytes that are compressed) and the cursor returns to 0.
\<close>

definition FlushBuffer :: "MessageBuffer \<Rightarrow> MsgType \<Rightarrow> nat \<Rightarrow> nat \<Rightarrow> ServerGameState \<Rightarrow> MessageBuffer \<times> ServerGameState" where
  "FlushBuffer buffer msgType frameIndex client s =
     (if GetDataLength buffer > 0
      then (let b1 = snd (Write 3 7 buffer);
                pkt = PackedPacket msgType frameIndex (padTake (8 * GetDataLength b1) (m_data b1));
                s1 = GS_LOG (LogFlushBuffer (c_netId (clients s client))) s;
                s2 = SendPacket client pkt s1
            in (SetCurrentBit 0 b1, s2))
      else (buffer, s))"

definition MaybeFlushBuffer :: "MessageBuffer \<Rightarrow> MsgType \<Rightarrow> nat \<Rightarrow> nat \<Rightarrow> ServerGameState \<Rightarrow> MessageBuffer \<times> ServerGameState" where
  "MaybeFlushBuffer buffer msgType frameIndex client s =
     (if LZ4_compressBound (GetDataLength buffer) > 1100
      then FlushBuffer buffer msgType frameIndex client s
      else (buffer, s))"

section \<open>Entity registry and script handles\<close>

text \<open>
  Handles and object ids are unsigned machine integers held as naturals; a player id is a
  byte, so the handle stays below \<open>2 ^ 32\<close>.
\<close>

definition MakeEntityHandle :: "nat \<Rightarrow> nat \<Rightarrow> nat" where
  "MakeEntityHandle pId objectId = push_bit 16 (pId + 1) OR objectId"

definition GetEntity :: "ServerGameState \<Rightarrow> nat \<Rightarrow> nat \<Rightarrow> nat option" where
  "GetEntity s pId objectId =
     (if objectId \<ge> MaxObjectId then None else lockEntity s (m_entitiesById s objectId))"

text \<open>
  Modelled from the spec: the script-GUID pool \<open>CPool<fx::ScriptGuid>\<close> (Pool.h is not
  among the sources). The spec (3) gives a fixed-capacity pool whose slots store the entity
  handle, with script handle = pool index + \<open>0x20000\<close>. A slot of \<open>g_scriptHandlePool\<close>
  is free or holds the handle of an entity GUID; \<open>poolNew\<close> takes the first free slot.
  The pool of the model grows when no slot is free (the program would dereference a null
  pointer there).
\<close>

definition findScriptGuid :: "nat option list \<Rightarrow> nat \<Rightarrow> nat option" where
  "findScriptGuid pool h =
     (case filter (\<lambda>i. pool ! i = Some h) [0..<length pool] of
        [] \<Rightarrow> None
      | j # js \<Rightarrow> Some (last (j # js)))"

definition poolNew :: "nat option list \<Rightarrow> nat \<Rightarrow> nat \<times> nat option list" where
  "poolNew pool h =
     (case find (\<lambda>i. pool ! i = None) [0..<length pool] of
        Some i \<Rightarrow> (i, pool[i := Some h])
      | None \<Rightarrow> (length pool, pool @ [Some h]))"

definition MakeScriptHandle :: "nat \<Rightarrow> ServerGameState \<Rightarrow> nat \<times> ServerGameState" where
  "MakeScriptHandle r s =
     (case e_guid (entities s r) of
        Some g \<Rightarrow> (g + 0x20000, s)
      | None \<Rightarrow>
         (case findScriptGuid (g_scriptHandlePool s) (e_handle (entities s r)) of
            Some g \<Rightarrow> (g + 0x20000, updEntity r (\<lambda>e. e\<lparr>e_guid := Some g\<rparr>) s)
          | None \<Rightarrow>
             (let (g, pool) = poolNew (g_scriptHandlePool s) (e_handle (entities s r))
              in (g + 0x20000,
                  updEntity r (\<lambda>e. e\<lparr>e_guid := Some g\<rparr>) (s\<lparr>g_scriptHandlePool := pool\<rparr>)))))"

definition GetPlayerFocusPos :: "SyncEntityState \<Rightarrow> vec3" where
  "GetPlayerFocusPos e =
     (case e_syncTree e of
        None \<Rightarrow> (0, 0, 0)
      | Some t \<Rightarrow>
         (case t_position t of (px, py, pz) \<Rightarrow>
            (case t_playerCamera t of
               None \<Rightarrow> (px, py, pz)
             | Some cam \<Rightarrow>
                 if camMode cam = 1 then (freeCamPosX cam, freeCamPosY cam, freeCamPosZ cam)
                 else if camMode cam = 2
                   then (px + camOffX cam, py + camOffY cam, pz + camOffZ cam)
                 else (px, py, pz))))"

section \<open>Reassignment and removal\<close>

text \<open>
  \<open>ReassignEntity\<close> visits the sync tree of the entity it looked up without a null check;
  its callers pass the handle of an entity that has a tree, and the model leaves a missing
  tree as it is.
\<close>

definition ReassignEntity :: "nat \<Rightarrow> nat \<Rightarrow> ServerGameState \<Rightarrow> ServerGameState" where
  "ReassignEntity entityHandle targetClient s =
     (case GetEntity s 0 (entityHandle AND 0xFFFF) of
        None \<Rightarrow> s
      | Some r \<Rightarrow>
         (let oldClient = e_client (entities s r);
              s1 = updEntity r (\<lambda>e. e\<lparr>e_client := Some targetClient\<rparr>) s;
              oldClientRef = lockClient s1 oldClient;
              s2 = GS_LOG (LogReassignEntity (entityHandle AND 0xFFFF)
                     (map_option (\<lambda>c. c_netId (clients s1 c)) oldClientRef)
                     (c_netId (clients s1 targetClient))) s1;
              s3 = (case oldClientRef of
                      None \<Rightarrow> s2
                    | Some oc \<Rightarrow> updClientData oc
                        (\<lambda>d. d\<lparr>objectIds := objectIds d - {entityHandle AND 0xFFFF}\<rparr>) s2);
              s4 = updClientData targetClient
                     (\<lambda>d. d\<lparr>objectIds := insert (entityHandle AND 0xFFFF) (objectIds d)\<rparr>) s3;
              s5 = s4\<lparr>m_objectIdsStolen :=
                        bs_set MaxObjectId (entityHandle AND 0xFFFF) (m_objectIdsStolen s4)\<rparr>
          in updEntity r
               (\<lambda>e. e\<lparr>lastResends := (\<lambda>_. 0), lastSyncs := (\<lambda>_. 0),
                       e_syncTree := map_option
                         (Visit (\<lambda>n. n\<lparr>n_frameIndex := m_frameIndex s5 + 1, ackedPlayers := {}\<rparr>))
                         (e_syncTree e)\<rparr>) s5))"

text \<open>
  The vehicle-occupant part of \<open>OnCloneRemove\<close>, for a ped or player entity \<open>r\<close>. A seat
  index is an \<open>int\<close>; \<open>occupants\<close> is total on it, and resetting the bit of a negative
  seat changes nothing.
\<close>

definition clearVehicleSeat :: "nat \<Rightarrow> ServerGameState \<Rightarrow> ServerGameState" where
  "clearVehicleSeat r s =
     (let pedHandle = e_handle (entities s r) AND 0xFFFF in
      case e_syncTree (entities s r) of
        None \<Rightarrow> s
      | Some t \<Rightarrow>
         (case t_pedGameState t of
            None \<Rightarrow> s
          | Some vehicleData \<Rightarrow>
             (case (if curVehicle vehicleData \<noteq> - 1
                    then GetEntity s 0 (nat (curVehicle vehicleData mod 65536)) else None) of
                None \<Rightarrow> s
              | Some v \<Rightarrow>
                 (case e_syncTree (entities s v) of
                    None \<Rightarrow> s
                  | Some vt \<Rightarrow>
                     (case t_vehicleGameState vt of
                        None \<Rightarrow> s
                      | Some cvd \<Rightarrow>
                         if occupants cvd (curVehicleSeat vehicleData) = pedHandle
                         then updEntity v (\<lambda>ve. ve\<lparr>e_syncTree := Some (vt\<lparr>t_vehicleGameState :=
                                Some (cvd\<lparr>occupants := (occupants cvd)(curVehicleSeat vehicleData := 0),
                                          playerOccupants := playerOccupants cvd -
                                            (if curVehicleSeat vehicleData \<ge> 0
                                             then {nat (curVehicleSeat vehicleData)} else {})\<rparr>)\<rparr>)\<rparr>) s
                         else s)))))"

text \<open>
  \<open>OnCloneRemove entity doRemove\<close>: the callback (the \<open>entityRemoved\<close> event on the script
  thread, then \<open>doRemove\<close> on the net thread) is recorded in \<open>pendingCloneRemovals\<close> with
  the object id that \<open>doRemove\<close> releases; \<open>runCloneRemoval\<close> below runs it.
\<close>

definition OnCloneRemove :: "nat \<Rightarrow> nat \<Rightarrow> ServerGameState \<Rightarrow> ServerGameState" where
  "OnCloneRemove r doRemoveId s =
     (let s1 = s\<lparr>pendingCloneRemovals := pendingCloneRemovals s @ [(r, doRemoveId)]\<rparr>;
          s2 = (if e_type (entities s1 r) = Ped \<or> e_type (entities s1 r) = Player
                then clearVehicleSeat r s1 else s1);
          objectId = e_handle (entities s2 r) AND 0xFFFF;
          stolen = bs_test MaxObjectId objectId (m_objectIdsStolen s2);
          s3 = (if stolen
                then s2\<lparr>m_objectIdsSent := bs_reset MaxObjectId objectId (m_objectIdsSent s2),
                        m_objectIdsStolen := bs_reset MaxObjectId objectId (m_objectIdsStolen s2)\<rparr>
                else s2)
      in if stolen
         then (case lockClient s3 (e_client (entities s3 r)) of
                 None \<Rightarrow> s3
               | Some c \<Rightarrow> updClientData c (\<lambda>d. d\<lparr>objectIds := objectIds d - {objectId}\<rparr>) s3)
         else s3)"

definition RemoveClone :: "nat \<Rightarrow> nat \<Rightarrow> ServerGameState \<Rightarrow> ServerGameState" where
  "RemoveClone client objectId s =
     (let s1 = GS_LOG (LogRemoveClone (c_netId (clients s client)) objectId) s in
      case lockEntity s1 (m_entitiesById s1 objectId) of
        None \<Rightarrow> s1
      | Some r \<Rightarrow>
         if deleting (entities s1 r) then s1
         else (let s2 = updEntity r (\<lambda>e. e\<lparr>deleting := True\<rparr>) s1;
                   s3 = OnCloneRemove r objectId s2
               in ForAllClients
                    (\<lambda>tgtClient st.
                       if c_netId (clients st tgtClient) = c_netId (clients st client) then st
                       else updClientData tgtClient
                              (\<lambda>d. d\<lparr>pendingRemovals :=
                                        bs_set MaxObjectId objectId (pendingRemovals d)\<rparr>) st)
                    s3))"

fun eraseFirst :: "('a \<Rightarrow> bool) \<Rightarrow> 'a list \<Rightarrow> 'a list" where
  "eraseFirst P [] = []"
| "eraseFirst P (y # ys) = (if P y then ys else y # eraseFirst P ys)"

definition continueCloneRemoval :: "nat \<Rightarrow> ServerGameState \<Rightarrow> ServerGameState" where
  "continueCloneRemoval objectId s =
     s\<lparr>m_objectIdsUsed := bs_reset MaxObjectId objectId (m_objectIdsUsed s),
       m_entityList := eraseFirst (\<lambda>r. e_handle (entities s r) AND 0xFFFF = objectId) (m_entityList s),
       m_entitiesById := (m_entitiesById s)(objectId := None)\<rparr>"

text \<open>
  The deferred callback of \<open>OnCloneRemove\<close>; when it has run, its reference to the entity
  is gone, and an entity nothing else holds is destroyed, which frees its script GUID.
\<close>

definition runCloneRemoval :: "ServerGameState \<Rightarrow> ServerGameState" where
  "runCloneRemoval s =
     (case pendingCloneRemovals s of
        [] \<Rightarrow> s
      | (r, objectId) # rest \<Rightarrow>
         (let (h, s1) = MakeScriptHandle r s;
              s2 = s1\<lparr>queuedEvents := queuedEvents s1 @ [entityRemoved h]\<rparr>;
              s3 = continueCloneRemoval objectId s2;
              s4 = s3\<lparr>pendingCloneRemovals := rest\<rparr>
          in if entityAlive s4 r then s4
             else (case e_guid (entities s4 r) of
                     None \<Rightarrow> s4
                   | Some g \<Rightarrow> updEntity r (\<lambda>e. e\<lparr>e_guid := None\<rparr>)
                       (s4\<lparr>g_scriptHandlePool := (g_scriptHandlePool s4)[g := None]\<rparr>))))"

section \<open>Ingress of clone packets\<close>

text \<open>
  A freshly made entity. The constructor only clears \<open>deleting\<close>; the members it leaves
  uninitialised (time stamp, last syncs and resends) are zero in the model.
\<close>

definition newEntity :: "Externals \<Rightarrow> nat \<Rightarrow> NetObjEntityType \<Rightarrow> nat \<Rightarrow> nat \<Rightarrow> SyncEntityState" where
  "newEntity x client objectType frameIndex objectId =
     \<lparr>e_data = Map.empty, e_client = Some client, e_type = objectType,
      ackedCreation = {}, didDeletion = {}, e_timestamp = 0,
      e_frameIndex = frameIndex, e_lastFrameIndex = 0,
      lastResends = (\<lambda>_. 0), lastSyncs = (\<lambda>_. 0),
      e_handle = MakeEntityHandle 0 objectId,
      e_syncTree = MakeSyncTree x objectType, e_guid = None, deleting = False\<rparr>"

definition parseEntity :: "Externals \<Rightarrow> SyncParseState \<Rightarrow> nat \<Rightarrow> SyncEntityState \<Rightarrow> SyncEntityState" where
  "parseEntity x st parsingType e =
     (case e_syncTree e of
        None \<Rightarrow> e
      | Some t \<Rightarrow>
         (let (t', d') = Parse x st (t, e_data e)
          in e\<lparr>e_syncTree := Some (if parsingType = 1
                                     then Visit (\<lambda>n. n\<lparr>ackedPlayers := {}\<rparr>) t' else t'),
                e_data := d',
                lastResends := (\<lambda>_. 0)\<rparr>))"

text \<open>\<open>SendWorldGrid(nullptr, client)\<close> sends the whole grid, here an opaque packet.\<close>

definition setPlayerEntity :: "nat \<Rightarrow> nat \<Rightarrow> ServerGameState \<Rightarrow> ServerGameState" where
  "setPlayerEntity client r s =
     (let s1 = (if lockEntity s (playerEntity (GetClientData s client)) = None
                then SendPacket client WorldGridPacket s else s);
          s2 = updClientData client (\<lambda>d. d\<lparr>playerEntity := Some r\<rparr>) s1;
          (h, s3) = MakeScriptHandle r s2
      in updClient client (\<lambda>c. c\<lparr>c_playerEntity := Some h\<rparr>) s3)"

definition announceCreation :: "nat \<Rightarrow> nat \<Rightarrow> ServerGameState \<Rightarrow> ServerGameState" where
  "announceCreation objectId r s =
     (let (h, s1) = MakeScriptHandle r s;
          s2 = s1\<lparr>queuedEvents := queuedEvents s1 @ [entityCreated h]\<rparr>
      in ForAllClients
           (\<lambda>c st. updClientData c
              (\<lambda>d. d\<lparr>pendingRemovals := bs_reset MaxObjectId objectId (pendingRemovals d)\<rparr>) st)
           s2)"

text \<open>
  \<open>ProcessClonePacket\<close> from the two ack-bit writes on (the part after the entity has
  been made or found valid). The result is the value left in \<open>*outObjectId\<close>.
\<close>

definition ProcessClonePacket_accept ::
  "Externals \<Rightarrow> nat \<Rightarrow> nat \<Rightarrow> nat \<Rightarrow> bool list \<Rightarrow> nat \<Rightarrow> nat \<Rightarrow> bool \<Rightarrow> nat \<Rightarrow> ServerGameState
     \<Rightarrow> nat \<times> ServerGameState" where
  "ProcessClonePacket_accept x client parsingType objectId bitBytes timestamp r createdHere outObjectId s =
     (let slot = c_slotId (clients s client);
          s1 = updEntity r (\<lambda>e. e\<lparr>didDeletion := bs_reset (MAX_CLIENTS x) slot (didDeletion e)\<rparr>) s;
          s2 = updEntity r (\<lambda>e. e\<lparr>ackedCreation := bs_set (MAX_CLIENTS x) slot (ackedCreation e)\<rparr>) s1
      in case lockClient s2 (e_client (entities s2 r)) of
           None \<Rightarrow> (outObjectId, s2)
         | Some entityClient \<Rightarrow>
            if c_netId (clients s2 entityClient) \<noteq> c_netId (clients s2 client)
            then (outObjectId, GS_LOG (LogWrongOwner objectId) s2)
            else (let s3 = updEntity r (\<lambda>e. e\<lparr>e_timestamp := timestamp\<rparr>) s2;
                      s4 = updEntity r
                             (parseEntity x \<lparr>p_buffer = bitBytes, p_syncType = parsingType,
                                             p_objType = 0, p_frameIndex = m_frameIndex s3\<rparr>
                                parsingType) s3;
                      s5 = (if e_type (entities s4 r) = Player
                            then setPlayerEntity client r s4 else s4);
                      s6 = (if createdHere then announceCreation objectId r s5 else s5)
                  in (objectId, s6)))"

text \<open>
  \<open>ProcessClonePacket\<close>, first part: the fields of the record are read, the client's
  \<open>timestamp\<close> datum is set if it is missing, and \<open>playerId\<close> is set to 0. The result is
  (object id, object type, payload bits, time stamp), the packet and the state.
\<close>

definition ProcessClonePacket_read ::
  "Externals \<Rightarrow> nat \<Rightarrow> MessageBuffer \<Rightarrow> nat \<Rightarrow> ServerGameState
     \<Rightarrow> (nat \<times> NetObjEntityType \<times> bool list \<times> nat) \<times> MessageBuffer \<times> ServerGameState" where
  "ProcessClonePacket_read x client inPacket parsingType s =
     (let (objectId, p1) = Read 13 inPacket;
          (objectType, p2) = (if parsingType = 1
                              then (toEntityType x (fst (Read 4 p1)), snd (Read 4 p1))
                              else (Train, p1));
          (len, p3) = Read 12 p2;
          timestamp = (case c_syncTs (clients s client) of None \<Rightarrow> 0 | Some ts \<Rightarrow> ts);
          s1 = (if c_timestamp (clients s client) = None
                then updClient client (\<lambda>c. c\<lparr>c_timestamp := Some (int timestamp)\<rparr>) s else s);
          s2 = updClientData client (\<lambda>d. d\<lparr>playerId := Some 0\<rparr>) s1;
          (bitBytes, p4) = ReadBits (len * 8) p3
      in ((objectId, objectType, bitBytes, timestamp), p4, s2))"

text \<open>
  Second part: the entity is looked up; a create makes it when there is no valid one and
  is dropped otherwise (logged when the type differs); any other record needs a valid
  entity. What is left goes to \<open>ProcessClonePacket_accept\<close>.
\<close>

definition ProcessClonePacket_entity ::
  "Externals \<Rightarrow> nat \<Rightarrow> nat \<Rightarrow> nat \<Rightarrow> NetObjEntityType \<Rightarrow> bool list \<Rightarrow> nat \<Rightarrow> nat
     \<Rightarrow> ServerGameState \<Rightarrow> nat \<times> ServerGameState" where
  "ProcessClonePacket_entity x client parsingType objectId objectType bitBytes timestamp outObjectId s =
     (let entity = GetEntity s 0 objectId;
          validEntity = (case entity of
                           None \<Rightarrow> False
                         | Some r \<Rightarrow> lockClient s (e_client (entities s r)) \<noteq> None)
      in if parsingType = 1
         then (if \<not> validEntity
               then (let r = nextEntity s;
                         s3 = s\<lparr>entities := (entities s)
                                   (r := newEntity x client objectType (m_frameIndex s) objectId),
                                nextEntity := r + 1,
                                m_entityList := m_entityList s @ [r],
                                m_entitiesById := (m_entitiesById s)(objectId := Some r)\<rparr>
                     in ProcessClonePacket_accept x client parsingType objectId
                          bitBytes timestamp r True outObjectId s3)
               else (case entity of
                       None \<Rightarrow> (outObjectId, s)
                     | Some r \<Rightarrow>
                        (outObjectId,
                         if objectType \<noteq> e_type (entities s r)
                         then GS_LOG (LogDuplicateCreate (c_netId (clients s client)) objectId
                                objectType
                                (map_option (\<lambda>c. c_netId (clients s c))
                                   (lockClient s (e_client (entities s r))))
                                (e_type (entities s r))) s
                         else s)))
         else (if \<not> validEntity
               then (outObjectId, GS_LOG (LogWrongEntity objectId) s)
               else (case entity of
                       None \<Rightarrow> (outObjectId, s)
                     | Some r \<Rightarrow>
                        ProcessClonePacket_accept x client parsingType objectId
                          bitBytes timestamp r False outObjectId s)))"

definition ProcessClonePacket ::
  "Externals \<Rightarrow> nat \<Rightarrow> MessageBuffer \<Rightarrow> nat \<Rightarrow> nat \<Rightarrow> ServerGameState
     \<Rightarrow> nat \<times> MessageBuffer \<times> ServerGameState" where
  "ProcessClonePacket x client inPacket parsingType outObjectId s =
     (case ProcessClonePacket_read x client inPacket parsingType s of
        ((objectId, objectType, bitBytes, timestamp), p4, s2) \<Rightarrow>
          (case ProcessClonePacket_entity x client parsingType objectId objectType bitBytes
                  timestamp outObjectId s2 of
             (out, s4) \<Rightarrow> (out, p4, s4)))"

text \<open>The state that the first part leaves.\<close>

definition readState :: "Externals \<Rightarrow> nat \<Rightarrow> MessageBuffer \<Rightarrow> nat \<Rightarrow> ServerGameState \<Rightarrow> ServerGameState" where
  "readState x client inPacket pt s = snd (snd (ProcessClonePacket_read x client inPacket pt s))"

text \<open>
  The ack packet wrapper writes into the client's ack buffer, which \<open>ParseClonePacket\<close>
  holds in a local for the duration of the packet; its \<open>flush\<close> is \<open>MaybeFlushBuffer\<close>
  with \<open>msgPackedAcks\<close> and frame 0.
\<close>

definition ackFlush :: "nat \<Rightarrow> MessageBuffer \<Rightarrow> ServerGameState \<Rightarrow> MessageBuffer \<times> ServerGameState" where
  "ackFlush client ackPacket s = MaybeFlushBuffer ackPacket msgPackedAcks 0 client s"

definition ProcessCloneCreate ::
  "Externals \<Rightarrow> nat \<Rightarrow> MessageBuffer \<Rightarrow> MessageBuffer \<Rightarrow> ServerGameState
     \<Rightarrow> MessageBuffer \<times> MessageBuffer \<times> ServerGameState" where
  "ProcessCloneCreate x client inPacket ackPacket s =
     (let (objectId, inPacket', s1) = ProcessClonePacket x client inPacket 1 0 s;
          s2 = s1\<lparr>m_objectIdsUsed := bs_set MaxObjectId objectId (m_objectIdsUsed s1)\<rparr>;
          a1 = snd (Write 3 1 ackPacket);
          a2 = snd (Write 13 objectId a1);
          (a3, s3) = ackFlush client a2 s2
      in (inPacket', a3, GS_LOG (LogCloneCreate (c_netId (clients s3 client)) objectId) s3))"

definition ProcessCloneSync ::
  "Externals \<Rightarrow> nat \<Rightarrow> MessageBuffer \<Rightarrow> MessageBuffer \<Rightarrow> ServerGameState
     \<Rightarrow> MessageBuffer \<times> MessageBuffer \<times> ServerGameState" where
  "ProcessCloneSync x client inPacket ackPacket s =
     (let (objectId, inPacket', s1) = ProcessClonePacket x client inPacket 2 0 s;
          a1 = snd (Write 3 2 ackPacket);
          a2 = snd (Write 13 objectId a1);
          (a3, s2) = ackFlush client a2 s1
      in (inPacket', a3, GS_LOG (LogCloneSync (c_netId (clients s2 client)) objectId) s2))"

definition ProcessCloneTakeover ::
  "nat \<Rightarrow> MessageBuffer \<Rightarrow> ServerGameState \<Rightarrow> MessageBuffer \<times> ServerGameState" where
  "ProcessCloneTakeover client inPacket s =
     (let (clientId, p1) = Read 16 inPacket;
          (objectId, p2) = Read 13 p1
      in case GetEntity s 0 objectId of
           None \<Rightarrow> (p2, s)
         | Some r \<Rightarrow>
            (case (if clientId \<noteq> 0 then GetClientByNetID s clientId else Some client) of
               None \<Rightarrow> (p2, s)
             | Some tgtCl \<Rightarrow>
                (let entityClient = lockClient s (e_client (entities s r)) in
                 if entityClient \<noteq> None
                    \<and> map_option (\<lambda>c. c_netId (clients s c)) entityClient
                        = Some (c_netId (clients s tgtCl))
                 then (p2, s)
                 else if entityClient \<noteq> None
                    \<and> map_option (\<lambda>c. c_netId (clients s c)) entityClient
                        \<noteq> Some (c_netId (clients s client))
                 then (p2, GS_LOG (LogTakeoverReject objectId) s)
                 else (let s1 = GS_LOG (LogTakeoverMigrate objectId) s in
                       if e_syncTree (entities s1 r) = None then (p2, s1)
                       else (p2, ReassignEntity (e_handle (entities s1 r)) tgtCl s1)))))"

definition ProcessCloneRemove ::
  "nat \<Rightarrow> MessageBuffer \<Rightarrow> MessageBuffer \<Rightarrow> ServerGameState
     \<Rightarrow> MessageBuffer \<times> MessageBuffer \<times> ServerGameState" where
  "ProcessCloneRemove client inPacket ackPacket s =
     (let (objectId, p1) = Read 13 inPacket;
          a1 = snd (Write 3 3 ackPacket);
          a2 = snd (Write 13 objectId a1);
          (a3, s1) = ackFlush client a2 s;
          wrongOwner =
            (case GetEntity s1 0 objectId of
               None \<Rightarrow> False
             | Some r \<Rightarrow>
                (case lockClient s1 (e_client (entities s1 r)) of
                   None \<Rightarrow> False
                 | Some entityClient \<Rightarrow>
                     c_netId (clients s1 client) \<noteq> c_netId (clients s1 entityClient)))
      in if wrongOwner then (p1, a3, GS_LOG (LogRemoveWrongOwner objectId) s1)
         else (p1, a3, RemoveClone client objectId s1))"

text \<open>
  One turn of the loop of \<open>ParseClonePacket\<close>: a record is read and dispatched on its
  3-bit tag. The first component tells whether the loop ends.
\<close>

definition ParseClonePacket_step ::
  "Externals \<Rightarrow> nat \<Rightarrow> MessageBuffer \<Rightarrow> MessageBuffer \<Rightarrow> ServerGameState
     \<Rightarrow> bool \<times> MessageBuffer \<times> MessageBuffer \<times> ServerGameState" where
  "ParseClonePacket_step x client msgBuf ackPacket s =
     (let (dataType, b1) = Read 3 msgBuf in
      if dataType = 1 then (False, ProcessCloneCreate x client b1 ackPacket s)
      else if dataType = 2 then (False, ProcessCloneSync x client b1 ackPacket s)
      else if dataType = 3 then (False, ProcessCloneRemove client b1 ackPacket s)
      else if dataType = 4
        then (let (b2, s1) = ProcessCloneTakeover client b1 s in (False, b2, ackPacket, s1))
      else if dataType = 5
        then (let (newTs, b2) = Read 32 b1;
                  a1 = snd (Write 3 5 ackPacket);
                  a2 = snd (Write 32 newTs a1);
                  (a3, s1) = ackFlush client a2 s;
                  oldTs = c_ackTs (clients s1 client);
                  s2 = (if (case oldTs of None \<Rightarrow> True | Some old \<Rightarrow> old < newTs)
                        then updClient client
                               (\<lambda>c. c\<lparr>c_ackTs := Some newTs, c_syncTs := Some newTs\<rparr>) s1
                        else s1)
              in (False, b2, a3, s2))
      else (True, b1, ackPacket, s))"

text \<open>
  The object id field of the record at the cursor (a takeover carries a client id before
  it), and the state that one turn of the loop leaves.
\<close>

definition recordObjectId :: "MessageBuffer \<Rightarrow> nat" where
  "recordObjectId msgBuf =
     (if fst (Read 3 msgBuf) = 4 then fst (Read 13 (snd (Read 16 (snd (Read 3 msgBuf)))))
      else fst (Read 13 (snd (Read 3 msgBuf))))"

definition stepState ::
  "Externals \<Rightarrow> nat \<Rightarrow> MessageBuffer \<Rightarrow> MessageBuffer \<Rightarrow> ServerGameState \<Rightarrow> ServerGameState" where
  "stepState x client msgBuf ackPacket s = snd (snd (snd (ParseClonePacket_step x client msgBuf ackPacket s)))"

section \<open>Ingress of ack packets\<close>

text \<open>
  The \<open>switch\<close> of \<open>ParseAckPacket\<close>. The block of \<open>case 1\<close> has no \<open>break\<close>:
  control runs on into the block of \<open>case 3\<close>, which reads a further 13-bit field.
\<close>

definition ParseAckPacket_case1 :: "Externals \<Rightarrow> nat \<Rightarrow> MessageBuffer \<Rightarrow> ServerGameState \<Rightarrow> MessageBuffer \<times> ServerGameState" where
  "ParseAckPacket_case1 x client msgBuf s =
     (let (objectId, b1) = Read 13 msgBuf;
          slot = c_slotId (clients s client)
      in case GetEntity s 0 objectId of
           None \<Rightarrow> (b1, s)
         | Some r \<Rightarrow>
            (case e_syncTree (entities s r) of
               None \<Rightarrow> (b1, s)
             | Some t \<Rightarrow>
                (let s1 = updEntity r (\<lambda>e. e\<lparr>e_syncTree := Some (Visit
                            (\<lambda>n. n\<lparr>ackedPlayers := bs_set (MAX_CLIENTS x) slot (ackedPlayers n)\<rparr>) t)\<rparr>) s;
                     s2 = updEntity r (\<lambda>e. e\<lparr>didDeletion :=
                            bs_reset (MAX_CLIENTS x) slot (didDeletion e)\<rparr>) s1;
                     s3 = updEntity r (\<lambda>e. e\<lparr>ackedCreation :=
                            bs_set (MAX_CLIENTS x) slot (ackedCreation e)\<rparr>) s2
                 in (b1, s3))))"

definition ParseAckPacket_case3 :: "nat \<Rightarrow> MessageBuffer \<Rightarrow> ServerGameState \<Rightarrow> MessageBuffer \<times> ServerGameState" where
  "ParseAckPacket_case3 client msgBuf s =
     (let (objectId, b1) = Read 13 msgBuf
      in (b1, updClientData client
                (\<lambda>d. d\<lparr>pendingRemovals := bs_reset MaxObjectId objectId (pendingRemovals d)\<rparr>) s))"

definition ParseAckPacket_step ::
  "Externals \<Rightarrow> nat \<Rightarrow> MessageBuffer \<Rightarrow> ServerGameState \<Rightarrow> bool \<times> MessageBuffer \<times> ServerGameState" where
  "ParseAckPacket_step x client msgBuf s =
     (let (dataType, b1) = Read 3 msgBuf in
      if dataType = 1
        then (let (b2, s1) = ParseAckPacket_case1 x client b1 s
              in (False, ParseAckPacket_case3 client b2 s1))
      else if dataType = 3 then (False, ParseAckPacket_case3 client b1 s)
      else (True, b1, s))"

section \<open>The parsing loops\<close>

text \<open>
  Both loops run \<open>while (!msgBuf.IsAtEnd() && !end)\<close>. Every turn reads at least the
  3-bit tag, so the distance of the cursor to the end of the buffer decreases.
\<close>

lemma Read_cursor:
  "m_curBit (snd (Read n b)) = m_curBit b + n \<and> m_maxBit (snd (Read n b)) = m_maxBit b"
  by (simp add: Read_def ReadBits_def)

lemma ReadBits_cursor:
  "m_curBit (snd (ReadBits n b)) = m_curBit b + n \<and> m_maxBit (snd (ReadBits n b)) = m_maxBit b"
  by (simp add: ReadBits_def)

lemma ParseAckPacket_step_cursor:
  "m_maxBit (fst (snd (ParseAckPacket_step x c b s))) = m_maxBit b \<and>
   m_curBit b + 3 \<le> m_curBit (fst (snd (ParseAckPacket_step x c b s)))"
  by (simp add: ParseAckPacket_step_def ParseAckPacket_case1_def ParseAckPacket_case3_def
      Read_cursor Let_def split_def split: option.split)

lemma ProcessClonePacket_cursor:
  "m_maxBit (fst (snd (ProcessClonePacket x c b pt out s))) = m_maxBit b \<and>
   m_curBit b \<le> m_curBit (fst (snd (ProcessClonePacket x c b pt out s)))"
  by (simp add: ProcessClonePacket_def ProcessClonePacket_read_def Read_cursor ReadBits_cursor
      Let_def split_def)

lemma ParseClonePacket_step_cursor:
  "m_maxBit (fst (snd (ParseClonePacket_step x c b a s))) = m_maxBit b \<and>
   m_curBit b + 3 \<le> m_curBit (fst (snd (ParseClonePacket_step x c b a s)))"
  using ProcessClonePacket_cursor [of x c "snd (Read 3 b)" 1 0 s]
    ProcessClonePacket_cursor [of x c "snd (Read 3 b)" 2 0 s]
  by (simp add: ParseClonePacket_step_def ProcessCloneCreate_def ProcessCloneSync_def
      ProcessCloneRemove_def ProcessCloneTakeover_def Read_cursor
      Let_def split_def split: option.split)

lemma ParseAckPacket_step_progress:
  "(e, b', s') = ParseAckPacket_step x c b s \<Longrightarrow>
     m_maxBit b' = m_maxBit b \<and> m_curBit b + 3 \<le> m_curBit b'"
  using ParseAckPacket_step_cursor [of x c b s] by (metis fst_conv snd_conv)

lemma ParseClonePacket_step_progress:
  "(e, b', a', s') = ParseClonePacket_step x c b a s \<Longrightarrow>
     m_maxBit b' = m_maxBit b \<and> m_curBit b + 3 \<le> m_curBit b'"
  using ParseClonePacket_step_cursor [of x c b a s] by (metis fst_conv snd_conv)

function ParseAckPacket_loop :: "Externals \<Rightarrow> nat \<Rightarrow> MessageBuffer \<Rightarrow> ServerGameState \<Rightarrow> ServerGameState" where
  "ParseAckPacket_loop x client msgBuf s =
     (if IsAtEnd msgBuf then s
      else (case ParseAckPacket_step x client msgBuf s of
              (end, msgBuf', s') \<Rightarrow>
                if end then s' else ParseAckPacket_loop x client msgBuf' s'))"
  by pat_completeness auto
termination
  apply (relation "measure (\<lambda>(x, client, msgBuf, s). m_maxBit msgBuf - m_curBit msgBuf)")
   apply simp
  apply (auto simp: IsAtEnd_def dest!: ParseAckPacket_step_progress)
  done

declare ParseAckPacket_loop.simps [simp del]

definition ParseAckPacket :: "Externals \<Rightarrow> nat \<Rightarrow> bool list \<Rightarrow> ServerGameState \<Rightarrow> ServerGameState" where
  "ParseAckPacket x client buffer s = ParseAckPacket_loop x client (inboundMessageBuffer buffer) s"

function ParseClonePacket_loop ::
  "Externals \<Rightarrow> nat \<Rightarrow> MessageBuffer \<Rightarrow> MessageBuffer \<Rightarrow> ServerGameState \<Rightarrow> MessageBuffer \<times> ServerGameState" where
  "ParseClonePacket_loop x client msgBuf ackPacket s =
     (if IsAtEnd msgBuf then (ackPacket, s)
      else (case ParseClonePacket_step x client msgBuf ackPacket s of
              (end, msgBuf', ackPacket', s') \<Rightarrow>
                if end then (ackPacket', s')
                else ParseClonePacket_loop x client msgBuf' ackPacket' s'))"
  by pat_completeness auto
termination
  apply (relation "measure (\<lambda>(x, client, msgBuf, ackPacket, s). m_maxBit msgBuf - m_curBit msgBuf)")
   apply simp
  apply (auto simp: IsAtEnd_def dest!: ParseClonePacket_step_progress)
  done

declare ParseClonePacket_loop.simps [simp del]

definition ParseClonePacket :: "Externals \<Rightarrow> nat \<Rightarrow> bool list \<Rightarrow> ServerGameState \<Rightarrow> ServerGameState" where
  "ParseClonePacket x client buffer s =
     (let (ackPacket, s1) = ParseClonePacket_loop x client (inboundMessageBuffer buffer)
                              (ackBuffer (GetClientData s client)) s
      in updClientData client (\<lambda>d. d\<lparr>ackBuffer := ackPacket\<rparr>) s1)"

section \<open>Object-id issuance\<close>

function findFreeId :: "nat \<Rightarrow> nat set \<Rightarrow> nat set \<Rightarrow> nat option" where
  "findFreeId oid sent used =
     (if oid < MaxObjectId
      then (if \<not> bs_test MaxObjectId oid sent \<and> \<not> bs_test MaxObjectId oid used
            then Some oid else findFreeId (oid + 1) sent used)
      else None)"
  by pat_completeness auto
termination
  by (relation "measure (\<lambda>(oid, sent, used). MaxObjectId - oid)") auto

declare findFreeId.simps [simp del]

fun gatherIds :: "nat \<Rightarrow> nat \<Rightarrow> nat \<Rightarrow> nat list \<Rightarrow> ServerGameState \<Rightarrow> nat list \<times> ServerGameState" where
  "gatherIds 0 oid client ids s = (ids, s)"
| "gatherIds (Suc n) oid client ids s =
     (case findFreeId oid (m_objectIdsSent s) (m_objectIdsUsed s) of
        None \<Rightarrow> (ids, s)
      | Some oid' \<Rightarrow>
          gatherIds n oid' client (ids @ [oid'])
            ((updClientData client (\<lambda>d. d\<lparr>objectIds := insert oid' (objectIds d)\<rparr>) s)
               \<lparr>m_objectIdsSent := bs_set MaxObjectId oid' (m_objectIdsSent s)\<rparr>))"

fun encodeRuns :: "int \<Rightarrow> int \<Rightarrow> int \<Rightarrow> int list \<Rightarrow> (int \<times> int) list" where
  "encodeRuns gap sz prev [] = [(gap, sz)]"
| "encodeRuns gap sz prev (i # ids) =
     (if i = prev + 1 then encodeRuns gap (sz + 1) i ids
      else (gap, sz) # encodeRuns (i - 2 - prev) 0 i ids)"

fun encodeIds :: "int list \<Rightarrow> (int \<times> int) list" where
  "encodeIds [] = []"
| "encodeIds (i # ids) = encodeRuns (i - 2 - (- 1)) 0 i ids"

definition SendObjectIds :: "nat \<Rightarrow> nat \<Rightarrow> ServerGameState \<Rightarrow> ServerGameState" where
  "SendObjectIds client numIds s =
     (let (ids, s1) = gatherIds numIds 1 client [] s;
          pairs = encodeIds (map int ids)
      in SendPacket client
           (ObjectIdsPacket (length pairs mod 65536)
              (map (\<lambda>(gap, sz). (nat (gap mod 65536), nat (sz mod 65536))) pairs)) s1)"

section \<open>Client drop\<close>

definition FLT_MAX :: real where
  "FLT_MAX = 340282346638528859811704183484516925440"

text \<open>
  The distance by which \<open>HandleClientDrop\<close> ranks a target client for an orphan at
  \<open>(posX, posY, posZ)\<close>: the squared 3D distance to the target's focus position when the
  target has a player entity and \<open>posX\<close> is not zero, and \<open>FLT_MAX\<close> otherwise.
\<close>

definition candidateDistance :: "ServerGameState \<Rightarrow> nat \<Rightarrow> vec3 \<Rightarrow> real" where
  "candidateDistance s tgtClient pos =
     (case pos of (posX, posY, posZ) \<Rightarrow>
        (case lockEntity s (playerEntity (GetClientData s tgtClient)) of
           None \<Rightarrow> FLT_MAX
         | Some pe \<Rightarrow>
            (case GetPlayerFocusPos (entities s pe) of (tx, ty, tz) \<Rightarrow>
               if posX \<noteq> 0
               then (let deltaX = tx - posX; deltaY = ty - posY; deltaZ = tz - posZ
                     in deltaX * deltaX + deltaY * deltaY + deltaZ * deltaZ)
               else FLT_MAX)))"

text \<open>
  The candidates, as \<open>std::sort\<close> leaves them: ordered by distance, then by the client
  reference.
\<close>

definition dropCandidates :: "ServerGameState \<Rightarrow> nat \<Rightarrow> vec3 \<Rightarrow> (real \<times> nat) list" where
  "dropCandidates s client pos =
     sort (fold (\<lambda>tgtClient candidates.
                   if tgtClient = client then candidates
                   else if c_slotId (clients s tgtClient) = noSlot then candidates
                   else candidates @ [(candidateDistance s tgtClient pos, tgtClient)])
                (registry s) [])"

datatype DropAction = EraseEntity | ReassignTo nat

definition dropDecision :: "ServerGameState \<Rightarrow> nat \<Rightarrow> nat \<Rightarrow> DropAction" where
  "dropDecision s client r =
     (let entity = entities s r;
          pos = (GetData entity ''posX'' 0, GetData entity ''posY'' 0, GetData entity ''posZ'' 0);
          sorted = dropCandidates s client pos;
          candidates = (if e_type entity = Player then [] else sorted)
      in case candidates of
           [] \<Rightarrow> EraseEntity
         | (d, c) # _ \<Rightarrow> if d \<ge> 300 * 300 then EraseEntity else ReassignTo c)"

definition setInsert :: "nat \<Rightarrow> nat list \<Rightarrow> nat list" where
  "setInsert h hs = (if h \<in> set hs then hs else insort h hs)"

text \<open>
  The body of the loop over \<open>m_entityList\<close>: \<open>hasClient\<close> is false for an entity whose
  owner is gone or is the dropping client.
\<close>

definition HandleClientDrop_entity ::
  "nat \<Rightarrow> nat \<Rightarrow> nat list \<times> ServerGameState \<Rightarrow> nat list \<times> ServerGameState" where
  "HandleClientDrop_entity client r acc =
     (case acc of (toErase, s) \<Rightarrow>
        if e_syncTree (entities s r) = None then (toErase, s)
        else (let hasClient =
                    (case lockClient s (e_client (entities s r)) of
                       None \<Rightarrow> False
                     | Some entityClient \<Rightarrow>
                         c_netId (clients s entityClient) \<noteq> c_netId (clients s client))
              in if hasClient then (toErase, s)
                 else (case dropDecision s client r of
                         EraseEntity \<Rightarrow>
                           (setInsert (e_handle (entities s r)) toErase,
                            GS_LOG (LogNoCandidates (e_handle (entities s r))) s)
                       | ReassignTo c \<Rightarrow>
                           (toErase,
                            ReassignEntity (e_handle (entities s r)) c
                              (GS_LOG (LogReassigning (e_handle (entities s r)) c) s)))))"

text \<open>
  \<open>HandleClientDrop\<close>. The release of the client's world-grid sectors, at the start of
  the function, is left out: the world grid is not part of this model.
\<close>

definition HandleClientDrop :: "Externals \<Rightarrow> nat \<Rightarrow> ServerGameState \<Rightarrow> ServerGameState" where
  "HandleClientDrop x client s =
     (if \<not> g_oneSyncVar s then s
      else (let s1 = GS_LOG LogClientDrop s;
                (toErase, s2) = fold (HandleClientDrop_entity client) (m_entityList s1) ([], s1);
                s3 = fold (\<lambda>h. RemoveClone client (h AND 0xFFFF)) toErase s2;
                s4 = s3\<lparr>m_objectIdsSent := m_objectIdsSent s3
                          - {i \<in> objectIds (GetClientData s3 client). i < MaxObjectId}\<rparr>;
                slot = c_slotId (clients s4 client)
            in if slot \<noteq> noSlot
               then fold (\<lambda>r st.
                            if e_syncTree (entities st r) = None then st
                            else updEntity r
                                   (\<lambda>e. e\<lparr>ackedCreation := bs_reset (MAX_CLIENTS x) slot (ackedCreation e),
                                           e_syncTree := map_option
                                             (Visit (\<lambda>n. n\<lparr>ackedPlayers :=
                                                bs_reset (MAX_CLIENTS x) slot (ackedPlayers n)\<rparr>))
                                             (e_syncTree e)\<rparr>) st)
                      (m_entityList s4) s4
               else s4))"



section \<open>The tick: interest and pacing for one client and one entity\<close>











text \<open>
  \<open>shouldBeCreated\<close> of \<open>Tick\<close> for the client \<open>client\<close> and one cached entity tuple
  (entity, position, vehicle data, owner); \<open>playerEntity\<close> is the client's player entity,
  if it has one, and \<open>playerPos\<close> its focus position.
\<close>

definition Tick_shouldBeCreated ::
  "ServerGameState \<Rightarrow> nat \<Rightarrow> SyncEntityState \<Rightarrow> vec3 \<Rightarrow> CVehicleGameStateNodeData option \<Rightarrow> nat
     \<Rightarrow> nat option \<Rightarrow> vec3 \<Rightarrow> bool" where
  "Tick_shouldBeCreated s client entity entityPos vehicleData entityClient playerEnt playerPos =
     (let c0 = (if g_oneSyncCulling s then False else True);
          c1 = (if c_netId (clients s client) = c_netId (clients s entityClient) then True else c0);
          c2 = (if \<not> c1
                then (if playerEnt \<noteq> None
                      then (let diffX = fst entityPos - fst playerPos;
                                diffY = fst (snd entityPos) - fst (snd playerPos);
                                distSquared = diffX * diffX + diffY * diffY
                            in if distSquared < 350 * 350 then True else c1)
                      else True)
                else c1)
      in if \<not> c2
         then (if e_type entity = Player then True
               else if isVehicleType (e_type entity)
                 then (case vehicleData of
                         None \<Rightarrow> c2
                       | Some vd \<Rightarrow> if playerOccupants vd \<noteq> {} then True else c2)
               else c2)
         else c2)"



text \<open>
  The branch of \<open>Tick\<close> for an entity that should not exist on the client: when the
  client had acknowledged its creation, the removal is queued and the creation
  unacknowledged.
\<close>

definition Tick_cull :: "Externals \<Rightarrow> nat \<Rightarrow> nat \<Rightarrow> ServerGameState \<Rightarrow> ServerGameState" where
  "Tick_cull x client r s =
     (let slotId = c_slotId (clients s client);
          hasCreated = bs_test (MAX_CLIENTS x) slotId (ackedCreation (entities s r))
      in if hasCreated
         then (let s1 = GS_LOG (LogDistanceCull (e_handle (entities s r) AND 0xFFFF)
                                 (c_netId (clients s client))) s;
                   s2 = updClientData client
                          (\<lambda>d. d\<lparr>pendingRemovals := bs_set MaxObjectId
                                    (e_handle (entities s1 r) AND 0xFFFF) (pendingRemovals d)\<rparr>) s1;
                   s3 = updEntity r (\<lambda>e. e\<lparr>ackedCreation :=
                          bs_reset (MAX_CLIENTS x) slotId (ackedCreation e)\<rparr>) s2
               in updEntity r (\<lambda>e. e\<lparr>didDeletion :=
                    bs_set (MAX_CLIENTS x) slotId (didDeletion e)\<rparr>) s3)
         else s)"

section \<open>Creation and deletion bits\<close>

text \<open>
  An entity is consistent when no slot has both its \<open>ackedCreation\<close> and its
  \<open>didDeletion\<close> bit set; the invariant asks this of every entity of \<open>m_entityList\<close>.
\<close>

definition ackConsistent :: "SyncEntityState \<Rightarrow> bool" where
  "ackConsistent e = (ackedCreation e \<inter> didDeletion e = {})"

definition ackInvariant :: "ServerGameState \<Rightarrow> bool" where
  "ackInvariant s = (\<forall>r \<in> set (m_entityList s). ackConsistent (entities s r))"

section \<open>The initial state and sample inputs\<close>

definition identityMatrix :: mat4 where
  "identityMatrix = ((1, 0, 0, 0), (0, 1, 0, 0), (0, 0, 1, 0), (0, 0, 0, 1))"

text \<open>
  A default-constructed \<open>GameStateClientData\<close> (the view matrix, which the constructor
  does not set, is the identity here) and a client holding it.
\<close>

definition newClientData :: GameStateClientData where
  "newClientData =
     \<lparr>ackBuffer = newMessageBuffer 16384, objectIds = {}, playerEntity = None,
      playerId = None, syncing = False, viewMatrix = identityMatrix,
      idsForGameState = [], pendingRemovals = {}\<rparr>"

definition newClient :: "nat \<Rightarrow> nat \<Rightarrow> Client" where
  "newClient netId slotId =
     \<lparr>c_netId = netId, c_slotId = slotId, c_syncTs = None, c_ackTs = None,
      c_timestamp = None, c_playerEntity = None, c_syncData = newClientData, c_outbox = []\<rparr>"

definition blankEntity :: SyncEntityState where
  "blankEntity =
     \<lparr>e_data = Map.empty, e_client = None, e_type = Object,
      ackedCreation = {}, didDeletion = {}, e_timestamp = 0,
      e_frameIndex = 0, e_lastFrameIndex = 0,
      lastResends = (\<lambda>_. 0), lastSyncs = (\<lambda>_. 0),
      e_handle = 0, e_syncTree = None, e_guid = None, deleting = False\<rparr>"

text \<open>
  The state after start-up (the constructor of \<open>ServerGameState\<close> and the init function:
  a pool of 1500 script GUIDs, the default values of the configuration variables), with
  no client and no entity.
\<close>

definition initialState :: ServerGameState where
  "initialState =
     \<lparr>g_oneSyncVar = False, g_oneSyncCulling = True, g_oneSyncRadiusFrequency = True,
      g_oneSyncLogVar = [], g_logQueue = [],
      g_scriptHandlePool = replicate 1500 None,
      m_frameIndex = 0, m_entityList = [], m_entitiesById = (\<lambda>_. None),
      m_objectIdsSent = {}, m_objectIdsUsed = {}, m_objectIdsStolen = {},
      entities = (\<lambda>_. blankEntity), nextEntity = 0, pendingCloneRemovals = [],
      clients = (\<lambda>_. newClient 0 noSlot), liveClients = {}, registry = [],
      queuedEvents = []\<rparr>"

text \<open>
  Sample values for the external parts: 64 client slots, a sync tree of one node, a parser
  that stamps the nodes with the frame, and a numbering of the entity types.
\<close>

definition sampleTree :: "vec3 \<Rightarrow> SyncTree" where
  "sampleTree pos =
     \<lparr>t_nodes = [\<lparr>n_frameIndex = 0, ackedPlayers = {}\<rparr>], t_position = pos,
      t_playerCamera = None, t_pedGameState = None, t_vehicleGameState = None\<rparr>"

definition sampleExternals :: Externals where
  "sampleExternals =
     \<lparr>MAX_CLIENTS = 64,
      MakeSyncTree = (\<lambda>t. Some (sampleTree (0, 0, 0))),
      Parse = (\<lambda>st (t, d). (Visit (\<lambda>n. n\<lparr>n_frameIndex := p_frameIndex st\<rparr>) t, d)),
      toEntityType = (\<lambda>n. if n = 0 then Automobile else if n = 1 then Bike
                            else if n = 2 then Boat else if n = 4 then Heli
                            else if n = 5 then Object else if n = 6 then Ped
                            else if n = 9 then Plane else if n = 10 then Submarine
                            else if n = 11 then Player else if n = 12 then Trailer
                            else if n = 13 then Train else OtherType n)\<rparr>"

text \<open>
  A running server with one connected client (reference 1, net id 1, slot 0) and no
  entity yet.
\<close>

definition oneClientState :: ServerGameState where
  "oneClientState =
     initialState\<lparr>g_oneSyncVar := True,
                  clients := (clients initialState)(1 := newClient 1 0),
                  liveClients := {1}, registry := [1]\<rparr>"

text \<open>
  A running server with two clients and two entities: client 1 (slot 0) owns the ped
  with object id 5, at x = 300; client 2 (slot 1) owns its player entity, object id 6,
  at x = 600. Client 1 has acknowledged the creation of both entities, client 2 that of
  its player only, and client 2 still has a removal of object 7168 pending.
\<close>

definition pedEntity :: SyncEntityState where
  "pedEntity =
     blankEntity\<lparr>e_data := [''posX'' \<mapsto> 300, ''posY'' \<mapsto> 0, ''posZ'' \<mapsto> 0],
                 e_client := Some 1, e_type := Ped, ackedCreation := {0},
                 e_handle := MakeEntityHandle 0 5,
                 e_syncTree := Some (sampleTree (300, 0, 0))\<rparr>"

definition playerEntity2 :: SyncEntityState where
  "playerEntity2 =
     blankEntity\<lparr>e_data := [''posX'' \<mapsto> 600, ''posY'' \<mapsto> 0, ''posZ'' \<mapsto> 0],
                 e_client := Some 2, e_type := Player, ackedCreation := {0, 1},
                 e_handle := MakeEntityHandle 0 6,
                 e_syncTree := Some (sampleTree (600, 0, 0))\<rparr>"

definition twoClientState :: ServerGameState where
  "twoClientState =
     initialState\<lparr>g_oneSyncVar := True,
                  m_entityList := [0, 1],
                  m_entitiesById := (\<lambda>_. None)(5 := Some 0, 6 := Some 1),
                  m_objectIdsSent := {5, 6}, m_objectIdsUsed := {5, 6},
                  entities := (\<lambda>_. blankEntity)(0 := pedEntity, 1 := playerEntity2),
                  nextEntity := 2,
                  clients := (clients initialState)
                    (1 := (newClient 1 0)\<lparr>c_syncData := newClientData\<lparr>objectIds := {5}\<rparr>\<rparr>,
                     2 := (newClient 2 1)\<lparr>c_syncData := newClientData
                            \<lparr>objectIds := {6}, playerEntity := Some 1,
                             pendingRemovals := {7168}\<rparr>\<rparr>),
                  liveClients := {1, 2}, registry := [1, 2]\<rparr>"

text \<open>
  Records as they stand in a packet after the 3-bit tag: a create for object 5 of type 6
  (a ped in the sample numbering) with an empty payload, and the same for object 1.
\<close>

definition dupCreateRecord :: MessageBuffer where
  "dupCreateRecord = inboundMessageBuffer (nat_to_bits 13 5 @ nat_to_bits 4 6 @ nat_to_bits 12 0)"


text \<open>
  A sync record for object 5 (after its tag); whole packets, from the tag to the
  terminator: a create and a sync for object id 0; and an ack packet of four bytes, the
  create-ack of object 5, the terminator and padding.
\<close>

definition syncRecord5 :: MessageBuffer where
  "syncRecord5 = inboundMessageBuffer (nat_to_bits 13 5 @ nat_to_bits 12 0)"

definition createZeroPacket :: MessageBuffer where
  "createZeroPacket = inboundMessageBuffer
     (nat_to_bits 3 1 @ nat_to_bits 13 0 @ nat_to_bits 4 6 @ nat_to_bits 12 0 @ nat_to_bits 3 7)"

definition syncZeroPacket :: MessageBuffer where
  "syncZeroPacket = inboundMessageBuffer
     (nat_to_bits 3 2 @ nat_to_bits 13 0 @ nat_to_bits 12 0 @ nat_to_bits 3 7)"

definition ackCreate5Packet :: MessageBuffer where
  "ackCreate5Packet = inboundMessageBuffer
     (nat_to_bits 3 1 @ nat_to_bits 13 5 @ nat_to_bits 3 7 @ replicate 13 False)"



text \<open>An ack buffer holding 540 remove-acks: 1080 bytes.\<close>

definition ackBuffer1080 :: MessageBuffer where
  "ackBuffer1080 =
     \<lparr>m_data = concat (replicate 540 (nat_to_bits 3 3 @ nat_to_bits 13 9)),
      m_curBit = 8640, m_maxBit = 8 * 16384\<rparr>"

section \<open>Lemmas on the stores and on the parts of ProcessClonePacket\<close>

lemma updEntity_fields [simp]:
  "g_oneSyncVar (updEntity r f s) = g_oneSyncVar s"
  "g_oneSyncCulling (updEntity r f s) = g_oneSyncCulling s"
  "g_oneSyncRadiusFrequency (updEntity r f s) = g_oneSyncRadiusFrequency s"
  "g_oneSyncLogVar (updEntity r f s) = g_oneSyncLogVar s"
  "g_logQueue (updEntity r f s) = g_logQueue s"
  "g_scriptHandlePool (updEntity r f s) = g_scriptHandlePool s"
  "m_frameIndex (updEntity r f s) = m_frameIndex s"
  "m_entityList (updEntity r f s) = m_entityList s"
  "m_entitiesById (updEntity r f s) = m_entitiesById s"
  "m_objectIdsSent (updEntity r f s) = m_objectIdsSent s"
  "m_objectIdsUsed (updEntity r f s) = m_objectIdsUsed s"
  "m_objectIdsStolen (updEntity r f s) = m_objectIdsStolen s"
  "nextEntity (updEntity r f s) = nextEntity s"
  "pendingCloneRemovals (updEntity r f s) = pendingCloneRemovals s"
  "clients (updEntity r f s) = clients s"
  "liveClients (updEntity r f s) = liveClients s"
  "registry (updEntity r f s) = registry s"
  "queuedEvents (updEntity r f s) = queuedEvents s"
  by (simp_all add: updEntity_def)

lemma updClient_fields [simp]:
  "g_oneSyncVar (updClient c f s) = g_oneSyncVar s"
  "g_oneSyncCulling (updClient c f s) = g_oneSyncCulling s"
  "g_oneSyncRadiusFrequency (updClient c f s) = g_oneSyncRadiusFrequency s"
  "g_oneSyncLogVar (updClient c f s) = g_oneSyncLogVar s"
  "g_logQueue (updClient c f s) = g_logQueue s"
  "g_scriptHandlePool (updClient c f s) = g_scriptHandlePool s"
  "m_frameIndex (updClient c f s) = m_frameIndex s"
  "m_entityList (updClient c f s) = m_entityList s"
  "m_entitiesById (updClient c f s) = m_entitiesById s"
  "m_objectIdsSent (updClient c f s) = m_objectIdsSent s"
  "m_objectIdsUsed (updClient c f s) = m_objectIdsUsed s"
  "m_objectIdsStolen (updClient c f s) = m_objectIdsStolen s"
  "entities (updClient c f s) = entities s"
  "nextEntity (updClient c f s) = nextEntity s"
  "pendingCloneRemovals (updClient c f s) = pendingCloneRemovals s"
  "liveClients (updClient c f s) = liveClients s"
  "registry (updClient c f s) = registry s"
  "queuedEvents (updClient c f s) = queuedEvents s"
  by (simp_all add: updClient_def)

lemma updClientData_fields [simp]:
  "g_oneSyncVar (updClientData c f s) = g_oneSyncVar s"
  "g_oneSyncCulling (updClientData c f s) = g_oneSyncCulling s"
  "g_oneSyncRadiusFrequency (updClientData c f s) = g_oneSyncRadiusFrequency s"
  "g_oneSyncLogVar (updClientData c f s) = g_oneSyncLogVar s"
  "g_logQueue (updClientData c f s) = g_logQueue s"
  "g_scriptHandlePool (updClientData c f s) = g_scriptHandlePool s"
  "m_frameIndex (updClientData c f s) = m_frameIndex s"
  "m_entityList (updClientData c f s) = m_entityList s"
  "m_entitiesById (updClientData c f s) = m_entitiesById s"
  "m_objectIdsSent (updClientData c f s) = m_objectIdsSent s"
  "m_objectIdsUsed (updClientData c f s) = m_objectIdsUsed s"
  "m_objectIdsStolen (updClientData c f s) = m_objectIdsStolen s"
  "entities (updClientData c f s) = entities s"
  "nextEntity (updClientData c f s) = nextEntity s"
  "pendingCloneRemovals (updClientData c f s) = pendingCloneRemovals s"
  "liveClients (updClientData c f s) = liveClients s"
  "registry (updClientData c f s) = registry s"
  "queuedEvents (updClientData c f s) = queuedEvents s"
  by (simp_all add: updClientData_def updClient_def)

lemma GS_LOG_fields [simp]:
  "g_oneSyncVar (GS_LOG e s) = g_oneSyncVar s"
  "g_oneSyncCulling (GS_LOG e s) = g_oneSyncCulling s"
  "g_oneSyncRadiusFrequency (GS_LOG e s) = g_oneSyncRadiusFrequency s"
  "g_oneSyncLogVar (GS_LOG e s) = g_oneSyncLogVar s"
  "g_scriptHandlePool (GS_LOG e s) = g_scriptHandlePool s"
  "m_frameIndex (GS_LOG e s) = m_frameIndex s"
  "m_entityList (GS_LOG e s) = m_entityList s"
  "m_entitiesById (GS_LOG e s) = m_entitiesById s"
  "m_objectIdsSent (GS_LOG e s) = m_objectIdsSent s"
  "m_objectIdsUsed (GS_LOG e s) = m_objectIdsUsed s"
  "m_objectIdsStolen (GS_LOG e s) = m_objectIdsStolen s"
  "entities (GS_LOG e s) = entities s"
  "nextEntity (GS_LOG e s) = nextEntity s"
  "pendingCloneRemovals (GS_LOG e s) = pendingCloneRemovals s"
  "clients (GS_LOG e s) = clients s"
  "liveClients (GS_LOG e s) = liveClients s"
  "registry (GS_LOG e s) = registry s"
  "queuedEvents (GS_LOG e s) = queuedEvents s"
  by (simp_all add: GS_LOG_def)

lemma SendPacket_fields [simp]:
  "g_oneSyncVar (SendPacket c p s) = g_oneSyncVar s"
  "g_oneSyncCulling (SendPacket c p s) = g_oneSyncCulling s"
  "g_oneSyncRadiusFrequency (SendPacket c p s) = g_oneSyncRadiusFrequency s"
  "g_oneSyncLogVar (SendPacket c p s) = g_oneSyncLogVar s"
  "g_logQueue (SendPacket c p s) = g_logQueue s"
  "g_scriptHandlePool (SendPacket c p s) = g_scriptHandlePool s"
  "m_frameIndex (SendPacket c p s) = m_frameIndex s"
  "m_entityList (SendPacket c p s) = m_entityList s"
  "m_entitiesById (SendPacket c p s) = m_entitiesById s"
  "m_objectIdsSent (SendPacket c p s) = m_objectIdsSent s"
  "m_objectIdsUsed (SendPacket c p s) = m_objectIdsUsed s"
  "m_objectIdsStolen (SendPacket c p s) = m_objectIdsStolen s"
  "entities (SendPacket c p s) = entities s"
  "nextEntity (SendPacket c p s) = nextEntity s"
  "pendingCloneRemovals (SendPacket c p s) = pendingCloneRemovals s"
  "liveClients (SendPacket c p s) = liveClients s"
  "registry (SendPacket c p s) = registry s"
  "queuedEvents (SendPacket c p s) = queuedEvents s"
  by (simp_all add: SendPacket_def updClient_def)

lemma updEntity_entities [simp]: "entities (updEntity r f s) r' = (if r' = r then f (entities s r) else entities s r')"
  by (simp add: updEntity_def)

lemma updClient_clients [simp]: "clients (updClient c f s) c' = (if c' = c then f (clients s c) else clients s c')"
  by (simp add: updClient_def)

lemma updClientData_clients [simp]:
  "clients (updClientData c f s) c' = (if c' = c then (clients s c)\<lparr>c_syncData := f (c_syncData (clients s c))\<rparr> else clients s c')"
  by (simp add: updClientData_def)

lemma SendPacket_clients [simp]:
  "clients (SendPacket c p s) c' = (if c' = c then (clients s c)\<lparr>c_outbox := c_outbox (clients s c) @ [p]\<rparr> else clients s c')"
  by (simp add: SendPacket_def)

lemma GS_LOG_logQueue [simp]:
  "g_logQueue (GS_LOG e s) = (if g_oneSyncLogVar s \<noteq> [] then g_logQueue s @ [e] else g_logQueue s)"
  by (simp add: GS_LOG_def)

lemma look_prims [simp]:
  "lockClient (updEntity r f s) w = lockClient s w"
  "lockClient (updClient c g s) w = lockClient s w"
  "lockClient (updClientData c h s) w = lockClient s w"
  "lockClient (GS_LOG e s) w = lockClient s w"
  "lockClient (SendPacket c p s) w = lockClient s w"
  "entityAlive (updEntity r f s) r' = entityAlive s r'"
  "entityAlive (updClient c g s) r' = entityAlive s r'"
  "entityAlive (updClientData c h s) r' = entityAlive s r'"
  "entityAlive (GS_LOG e s) r' = entityAlive s r'"
  "entityAlive (SendPacket c p s) r' = entityAlive s r'"
  "lockEntity (updEntity r f s) v = lockEntity s v"
  "lockEntity (updClient c g s) v = lockEntity s v"
  "lockEntity (updClientData c h s) v = lockEntity s v"
  "lockEntity (GS_LOG e s) v = lockEntity s v"
  "lockEntity (SendPacket c p s) v = lockEntity s v"
  "GetEntity (updEntity r f s) pid oid = GetEntity s pid oid"
  "GetEntity (updClient c g s) pid oid = GetEntity s pid oid"
  "GetEntity (updClientData c h s) pid oid = GetEntity s pid oid"
  "GetEntity (GS_LOG e s) pid oid = GetEntity s pid oid"
  "GetEntity (SendPacket c p s) pid oid = GetEntity s pid oid"
  by (simp_all add: lockClient_def lockEntity_def entityAlive_def GetEntity_def split: option.split)

text \<open>The first part of ProcessClonePacket\<close>

lemma ProcessClonePacket_read_result:
  "fst (fst (ProcessClonePacket_read x client inPacket pt s)) = fst (Read 13 inPacket)"
  "fst (snd (fst (ProcessClonePacket_read x client inPacket pt s))) =
     (if pt = 1 then toEntityType x (fst (Read 4 (snd (Read 13 inPacket)))) else Train)"
  by (simp_all add: ProcessClonePacket_read_def Let_def split_def)

lemma ProcessClonePacket_read_state:
  "snd (snd (ProcessClonePacket_read x client inPacket pt s)) =
     updClientData client (\<lambda>d. d\<lparr>playerId := Some 0\<rparr>)
       (if c_timestamp (clients s client) = None
        then updClient client (\<lambda>c. c\<lparr>c_timestamp := Some (int (case c_syncTs (clients s client) of None \<Rightarrow> 0 | Some ts \<Rightarrow> ts))\<rparr>) s
        else s)"
  by (simp add: ProcessClonePacket_read_def Let_def split_def)

lemma readState_fields [simp]:
  "entities (readState x client inPacket pt s) = entities s"
  "m_entityList (readState x client inPacket pt s) = m_entityList s"
  "m_entitiesById (readState x client inPacket pt s) = m_entitiesById s"
  "m_objectIdsSent (readState x client inPacket pt s) = m_objectIdsSent s"
  "m_objectIdsUsed (readState x client inPacket pt s) = m_objectIdsUsed s"
  "m_objectIdsStolen (readState x client inPacket pt s) = m_objectIdsStolen s"
  "pendingCloneRemovals (readState x client inPacket pt s) = pendingCloneRemovals s"
  "liveClients (readState x client inPacket pt s) = liveClients s"
  "registry (readState x client inPacket pt s) = registry s"
  "nextEntity (readState x client inPacket pt s) = nextEntity s"
  "g_logQueue (readState x client inPacket pt s) = g_logQueue s"
  "g_oneSyncLogVar (readState x client inPacket pt s) = g_oneSyncLogVar s"
  "m_frameIndex (readState x client inPacket pt s) = m_frameIndex s"
  "g_scriptHandlePool (readState x client inPacket pt s) = g_scriptHandlePool s"
  "queuedEvents (readState x client inPacket pt s) = queuedEvents s"
  "c_netId (clients (readState x client inPacket pt s) c) = c_netId (clients s c)"
  "c_slotId (clients (readState x client inPacket pt s) c) = c_slotId (clients s c)"
  "pendingRemovals (c_syncData (clients (readState x client inPacket pt s) c)) = pendingRemovals (c_syncData (clients s c))"
  "lockClient (readState x client inPacket pt s) w = lockClient s w"
  "GetEntity (readState x client inPacket pt s) pid oid = GetEntity s pid oid"
  by (simp_all add: readState_def ProcessClonePacket_read_state)

lemma ProcessClonePacket_unfold:
  "ProcessClonePacket x client inPacket pt out s =
     (case ProcessClonePacket_entity x client pt (fst (Read 13 inPacket))
             (fst (snd (fst (ProcessClonePacket_read x client inPacket pt s))))
             (fst (snd (snd (fst (ProcessClonePacket_read x client inPacket pt s)))))
             (snd (snd (snd (fst (ProcessClonePacket_read x client inPacket pt s)))))
             out (readState x client inPacket pt s) of
        (out', s') \<Rightarrow> (out', fst (snd (ProcessClonePacket_read x client inPacket pt s)), s'))"
  by (simp add: ProcessClonePacket_def readState_def split_def ProcessClonePacket_read_result)

lemma dup_create_entity:
  assumes "GetEntity s 0 objectId = Some r"
    and "lockClient s (e_client (entities s r)) \<noteq> None" and "pt = 1"
  shows "ProcessClonePacket_entity x client pt objectId objectType bitBytes ts out s =
     (out, if objectType \<noteq> e_type (entities s r)
           then GS_LOG (LogDuplicateCreate (c_netId (clients s client)) objectId objectType
                  (map_option (\<lambda>c. c_netId (clients s c)) (lockClient s (e_client (entities s r))))
                  (e_type (entities s r))) s
           else s)"
  using assms by (simp add: ProcessClonePacket_entity_def)


lemma fold_frame:
  assumes "\<And>c st. P (f c st) = P st"
  shows "P (fold f cs s) = P s"
  using assms by (induction cs arbitrary: s) simp_all

lemma ForAllClients_frame:
  assumes "\<And>c st. P (f c st) = P st"
  shows "P (ForAllClients f s) = P s"
  unfolding ForAllClients_def using assms by (rule fold_frame)

lemma MakeScriptHandle_frame [simp]:
  "m_entityList (snd (MakeScriptHandle r s)) = m_entityList s"
  "m_entitiesById (snd (MakeScriptHandle r s)) = m_entitiesById s"
  "m_objectIdsSent (snd (MakeScriptHandle r s)) = m_objectIdsSent s"
  "m_objectIdsUsed (snd (MakeScriptHandle r s)) = m_objectIdsUsed s"
  "m_objectIdsStolen (snd (MakeScriptHandle r s)) = m_objectIdsStolen s"
  "nextEntity (snd (MakeScriptHandle r s)) = nextEntity s"
  "pendingCloneRemovals (snd (MakeScriptHandle r s)) = pendingCloneRemovals s"
  "liveClients (snd (MakeScriptHandle r s)) = liveClients s"
  "registry (snd (MakeScriptHandle r s)) = registry s"
  "m_frameIndex (snd (MakeScriptHandle r s)) = m_frameIndex s"
  "g_oneSyncLogVar (snd (MakeScriptHandle r s)) = g_oneSyncLogVar s"
  "clients (snd (MakeScriptHandle r s)) = clients s"
  "queuedEvents (snd (MakeScriptHandle r s)) = queuedEvents s"
  "g_logQueue (snd (MakeScriptHandle r s)) = g_logQueue s"
  "ackedCreation (entities (snd (MakeScriptHandle r s)) r') = ackedCreation (entities s r')"
  "didDeletion (entities (snd (MakeScriptHandle r s)) r') = didDeletion (entities s r')"
  "e_client (entities (snd (MakeScriptHandle r s)) r') = e_client (entities s r')"
  "e_type (entities (snd (MakeScriptHandle r s)) r') = e_type (entities s r')"
  "e_syncTree (entities (snd (MakeScriptHandle r s)) r') = e_syncTree (entities s r')"
  "e_timestamp (entities (snd (MakeScriptHandle r s)) r') = e_timestamp (entities s r')"
  "lastResends (entities (snd (MakeScriptHandle r s)) r') = lastResends (entities s r')"
  "lastSyncs (entities (snd (MakeScriptHandle r s)) r') = lastSyncs (entities s r')"
  "e_data (entities (snd (MakeScriptHandle r s)) r') = e_data (entities s r')"
  "e_handle (entities (snd (MakeScriptHandle r s)) r') = e_handle (entities s r')"
  "deleting (entities (snd (MakeScriptHandle r s)) r') = deleting (entities s r')"
  by (simp_all add: MakeScriptHandle_def Let_def split_def split: option.split)

lemma MakeScriptHandle_look [simp]:
  "lockClient (snd (MakeScriptHandle r s)) w = lockClient s w"
  "lockEntity (snd (MakeScriptHandle r s)) v = lockEntity s v"
  "GetEntity (snd (MakeScriptHandle r s)) pid oid = GetEntity s pid oid"
  by (simp_all add: lockClient_def lockEntity_def entityAlive_def GetEntity_def split: option.split)

lemma setPlayerEntity_frame [simp]:
  "m_entityList (setPlayerEntity client r s) = m_entityList s"
  "m_entitiesById (setPlayerEntity client r s) = m_entitiesById s"
  "m_objectIdsSent (setPlayerEntity client r s) = m_objectIdsSent s"
  "m_objectIdsUsed (setPlayerEntity client r s) = m_objectIdsUsed s"
  "m_objectIdsStolen (setPlayerEntity client r s) = m_objectIdsStolen s"
  "nextEntity (setPlayerEntity client r s) = nextEntity s"
  "pendingCloneRemovals (setPlayerEntity client r s) = pendingCloneRemovals s"
  "liveClients (setPlayerEntity client r s) = liveClients s"
  "registry (setPlayerEntity client r s) = registry s"
  "m_frameIndex (setPlayerEntity client r s) = m_frameIndex s"
  "g_oneSyncLogVar (setPlayerEntity client r s) = g_oneSyncLogVar s"
  "ackedCreation (entities (setPlayerEntity client r s) r') = ackedCreation (entities s r')"
  "didDeletion (entities (setPlayerEntity client r s) r') = didDeletion (entities s r')"
  "e_client (entities (setPlayerEntity client r s) r') = e_client (entities s r')"
  "e_type (entities (setPlayerEntity client r s) r') = e_type (entities s r')"
  "e_syncTree (entities (setPlayerEntity client r s) r') = e_syncTree (entities s r')"
  "e_timestamp (entities (setPlayerEntity client r s) r') = e_timestamp (entities s r')"
  "lastResends (entities (setPlayerEntity client r s) r') = lastResends (entities s r')"
  "lastSyncs (entities (setPlayerEntity client r s) r') = lastSyncs (entities s r')"
  "e_data (entities (setPlayerEntity client r s) r') = e_data (entities s r')"
  "e_handle (entities (setPlayerEntity client r s) r') = e_handle (entities s r')"
  "deleting (entities (setPlayerEntity client r s) r') = deleting (entities s r')"
  "c_netId (clients (setPlayerEntity client r s) c) = c_netId (clients s c)"
  "c_slotId (clients (setPlayerEntity client r s) c) = c_slotId (clients s c)"
  by (simp_all add: setPlayerEntity_def Let_def split_def)

lemma announceCreation_frame [simp]:
  "m_entityList (announceCreation objectId r s) = m_entityList s"
  "m_entitiesById (announceCreation objectId r s) = m_entitiesById s"
  "m_objectIdsSent (announceCreation objectId r s) = m_objectIdsSent s"
  "m_objectIdsUsed (announceCreation objectId r s) = m_objectIdsUsed s"
  "m_objectIdsStolen (announceCreation objectId r s) = m_objectIdsStolen s"
  "nextEntity (announceCreation objectId r s) = nextEntity s"
  "pendingCloneRemovals (announceCreation objectId r s) = pendingCloneRemovals s"
  "liveClients (announceCreation objectId r s) = liveClients s"
  "registry (announceCreation objectId r s) = registry s"
  "m_frameIndex (announceCreation objectId r s) = m_frameIndex s"
  "g_oneSyncLogVar (announceCreation objectId r s) = g_oneSyncLogVar s"
  "ackedCreation (entities (announceCreation objectId r s) r') = ackedCreation (entities s r')"
  "didDeletion (entities (announceCreation objectId r s) r') = didDeletion (entities s r')"
  "e_client (entities (announceCreation objectId r s) r') = e_client (entities s r')"
  "e_type (entities (announceCreation objectId r s) r') = e_type (entities s r')"
  "e_syncTree (entities (announceCreation objectId r s) r') = e_syncTree (entities s r')"
  "e_timestamp (entities (announceCreation objectId r s) r') = e_timestamp (entities s r')"
  "lastResends (entities (announceCreation objectId r s) r') = lastResends (entities s r')"
  "lastSyncs (entities (announceCreation objectId r s) r') = lastSyncs (entities s r')"
  "e_data (entities (announceCreation objectId r s) r') = e_data (entities s r')"
  "e_handle (entities (announceCreation objectId r s) r') = e_handle (entities s r')"
  "deleting (entities (announceCreation objectId r s) r') = deleting (entities s r')"
  "c_netId (clients (announceCreation objectId r s) c) = c_netId (clients s c)"
  "c_slotId (clients (announceCreation objectId r s) c) = c_slotId (clients s c)"
  unfolding announceCreation_def Let_def split_def
  by (subst ForAllClients_frame; simp)+

lemma ProcessClonePacket_accept_frame [simp]:
  "m_entityList (snd (ProcessClonePacket_accept x client pt objectId bitBytes ts r ch out s)) = m_entityList s"
  "m_entitiesById (snd (ProcessClonePacket_accept x client pt objectId bitBytes ts r ch out s)) = m_entitiesById s"
  "m_objectIdsSent (snd (ProcessClonePacket_accept x client pt objectId bitBytes ts r ch out s)) = m_objectIdsSent s"
  "m_objectIdsUsed (snd (ProcessClonePacket_accept x client pt objectId bitBytes ts r ch out s)) = m_objectIdsUsed s"
  "m_objectIdsStolen (snd (ProcessClonePacket_accept x client pt objectId bitBytes ts r ch out s)) = m_objectIdsStolen s"
  "nextEntity (snd (ProcessClonePacket_accept x client pt objectId bitBytes ts r ch out s)) = nextEntity s"
  "pendingCloneRemovals (snd (ProcessClonePacket_accept x client pt objectId bitBytes ts r ch out s)) = pendingCloneRemovals s"
  "liveClients (snd (ProcessClonePacket_accept x client pt objectId bitBytes ts r ch out s)) = liveClients s"
  "registry (snd (ProcessClonePacket_accept x client pt objectId bitBytes ts r ch out s)) = registry s"
  "m_frameIndex (snd (ProcessClonePacket_accept x client pt objectId bitBytes ts r ch out s)) = m_frameIndex s"
  "g_oneSyncLogVar (snd (ProcessClonePacket_accept x client pt objectId bitBytes ts r ch out s)) = g_oneSyncLogVar s"
  by (simp_all add: ProcessClonePacket_accept_def Let_def split_def split: option.split)

lemma FlushBuffer_frame [simp]:
  "m_entityList (snd (FlushBuffer b t fi c s)) = m_entityList s"
  "m_entitiesById (snd (FlushBuffer b t fi c s)) = m_entitiesById s"
  "m_objectIdsSent (snd (FlushBuffer b t fi c s)) = m_objectIdsSent s"
  "m_objectIdsUsed (snd (FlushBuffer b t fi c s)) = m_objectIdsUsed s"
  "m_objectIdsStolen (snd (FlushBuffer b t fi c s)) = m_objectIdsStolen s"
  "nextEntity (snd (FlushBuffer b t fi c s)) = nextEntity s"
  "pendingCloneRemovals (snd (FlushBuffer b t fi c s)) = pendingCloneRemovals s"
  "liveClients (snd (FlushBuffer b t fi c s)) = liveClients s"
  "registry (snd (FlushBuffer b t fi c s)) = registry s"
  "m_frameIndex (snd (FlushBuffer b t fi c s)) = m_frameIndex s"
  "g_oneSyncLogVar (snd (FlushBuffer b t fi c s)) = g_oneSyncLogVar s"
  "entities (snd (FlushBuffer b t fi c s)) = entities s"
  "queuedEvents (snd (FlushBuffer b t fi c s)) = queuedEvents s"
  "g_scriptHandlePool (snd (FlushBuffer b t fi c s)) = g_scriptHandlePool s"
  "lockClient (snd (FlushBuffer b t fi c s)) w = lockClient s w"
  "GetEntity (snd (FlushBuffer b t fi c s)) pid oid = GetEntity s pid oid"
  "lockEntity (snd (FlushBuffer b t fi c s)) v = lockEntity s v"
  "c_netId (clients (snd (FlushBuffer b t fi c s)) c') = c_netId (clients s c')"
  "c_slotId (clients (snd (FlushBuffer b t fi c s)) c') = c_slotId (clients s c')"
  "c_syncData (clients (snd (FlushBuffer b t fi c s)) c') = c_syncData (clients s c')"
  by (simp_all add: FlushBuffer_def Let_def)

lemma ackFlush_frame [simp]:
  "m_entityList (snd (ackFlush c b s)) = m_entityList s"
  "m_entitiesById (snd (ackFlush c b s)) = m_entitiesById s"
  "m_objectIdsSent (snd (ackFlush c b s)) = m_objectIdsSent s"
  "m_objectIdsUsed (snd (ackFlush c b s)) = m_objectIdsUsed s"
  "m_objectIdsStolen (snd (ackFlush c b s)) = m_objectIdsStolen s"
  "nextEntity (snd (ackFlush c b s)) = nextEntity s"
  "pendingCloneRemovals (snd (ackFlush c b s)) = pendingCloneRemovals s"
  "liveClients (snd (ackFlush c b s)) = liveClients s"
  "registry (snd (ackFlush c b s)) = registry s"
  "m_frameIndex (snd (ackFlush c b s)) = m_frameIndex s"
  "g_oneSyncLogVar (snd (ackFlush c b s)) = g_oneSyncLogVar s"
  "entities (snd (ackFlush c b s)) = entities s"
  "queuedEvents (snd (ackFlush c b s)) = queuedEvents s"
  "g_scriptHandlePool (snd (ackFlush c b s)) = g_scriptHandlePool s"
  "lockClient (snd (ackFlush c b s)) w = lockClient s w"
  "GetEntity (snd (ackFlush c b s)) pid oid = GetEntity s pid oid"
  "lockEntity (snd (ackFlush c b s)) v = lockEntity s v"
  "c_netId (clients (snd (ackFlush c b s)) c') = c_netId (clients s c')"
  "c_slotId (clients (snd (ackFlush c b s)) c') = c_slotId (clients s c')"
  "c_syncData (clients (snd (ackFlush c b s)) c') = c_syncData (clients s c')"
  by (simp_all add: ackFlush_def MaybeFlushBuffer_def)

lemma ProcessClonePacket_entity_ids [simp]:
  "m_objectIdsSent (snd (ProcessClonePacket_entity x client pt objectId objectType bitBytes ts out s)) = m_objectIdsSent s"
  "m_objectIdsUsed (snd (ProcessClonePacket_entity x client pt objectId objectType bitBytes ts out s)) = m_objectIdsUsed s"
  "m_objectIdsStolen (snd (ProcessClonePacket_entity x client pt objectId objectType bitBytes ts out s)) = m_objectIdsStolen s"
  "liveClients (snd (ProcessClonePacket_entity x client pt objectId objectType bitBytes ts out s)) = liveClients s"
  "registry (snd (ProcessClonePacket_entity x client pt objectId objectType bitBytes ts out s)) = registry s"
  "g_oneSyncLogVar (snd (ProcessClonePacket_entity x client pt objectId objectType bitBytes ts out s)) = g_oneSyncLogVar s"
  by (simp_all add: ProcessClonePacket_entity_def Let_def split: option.split)

lemma ProcessClonePacket_ids [simp]:
  "m_objectIdsSent (snd (snd (ProcessClonePacket x client inPacket pt out s))) = m_objectIdsSent s"
  "m_objectIdsUsed (snd (snd (ProcessClonePacket x client inPacket pt out s))) = m_objectIdsUsed s"
  "m_objectIdsStolen (snd (snd (ProcessClonePacket x client inPacket pt out s))) = m_objectIdsStolen s"
  "liveClients (snd (snd (ProcessClonePacket x client inPacket pt out s))) = liveClients s"
  "registry (snd (snd (ProcessClonePacket x client inPacket pt out s))) = registry s"
  "g_oneSyncLogVar (snd (snd (ProcessClonePacket x client inPacket pt out s))) = g_oneSyncLogVar s"
  by (simp_all add: ProcessClonePacket_unfold split_def)




lemma length_padTake [simp]: "length (padTake n xs) = n"
  by (auto simp: padTake_def min_def)

lemma bits_to_nat_bound_aux:
  "foldl (\<lambda>a b. 2 * a + (if b then 1 else 0)) (a::nat) bs < (a + 1) * 2 ^ length bs"
proof (induction bs arbitrary: a)
  case Nil
  show ?case by simp
next
  case (Cons b bs)
  have "foldl (\<lambda>a b. 2 * a + (if b then 1 else 0)) (2 * a + (if b then 1 else 0)) bs
          < (2 * a + (if b then 1 else 0) + 1) * 2 ^ length bs"
    by (rule Cons.IH)
  also have "\<dots> \<le> (2 * a + 2) * 2 ^ length bs"
    by (simp add: mult_le_mono1)
  finally show ?case by (simp add: algebra_simps)
qed

lemma bits_to_nat_bound: "bits_to_nat bs < 2 ^ length bs"
  using bits_to_nat_bound_aux [of 0 bs] by (simp add: bits_to_nat_def)

lemma Read_bound: "fst (Read n b) < 2 ^ n"
  using bits_to_nat_bound [of "fst (ReadBits n b)"]
  by (simp add: Read_def ReadBits_def)

lemma Read_13_bound: "fst (Read 13 b) < MaxObjectId"
  using Read_bound [of 13 b] by (simp add: MaxObjectId_def)

lemma dup_create_result:
  assumes "GetEntity s 0 (fst (Read 13 inPacket)) = Some r"
    and "lockClient s (e_client (entities s r)) \<noteq> None"
  shows "fst (ProcessClonePacket x client inPacket 1 out s) = out"
    and "snd (snd (ProcessClonePacket x client inPacket 1 out s)) =
      (if toEntityType x (fst (Read 4 (snd (Read 13 inPacket)))) \<noteq> e_type (entities s r)
       then GS_LOG (LogDuplicateCreate (c_netId (clients s client)) (fst (Read 13 inPacket))
              (toEntityType x (fst (Read 4 (snd (Read 13 inPacket)))))
              (map_option (\<lambda>c. c_netId (clients s c)) (lockClient s (e_client (entities s r))))
              (e_type (entities s r))) (readState x client inPacket 1 s)
       else readState x client inPacket 1 s)"
proof -
  have e: "ProcessClonePacket_entity x client 1 (fst (Read 13 inPacket)) ot bb ts out
             (readState x client inPacket 1 s) =
      (out, if ot \<noteq> e_type (entities s r)
            then GS_LOG (LogDuplicateCreate (c_netId (clients s client)) (fst (Read 13 inPacket)) ot
                   (map_option (\<lambda>c. c_netId (clients s c)) (lockClient s (e_client (entities s r))))
                   (e_type (entities s r))) (readState x client inPacket 1 s)
            else readState x client inPacket 1 s)" for ot bb ts
    using assms
    by (subst dup_create_entity [where r = r]) (simp_all cong: map_option_cong)
  show "fst (ProcessClonePacket x client inPacket 1 out s) = out"
    by (simp only: ProcessClonePacket_unfold e split: prod.split) simp
  show "snd (snd (ProcessClonePacket x client inPacket 1 out s)) =
      (if toEntityType x (fst (Read 4 (snd (Read 13 inPacket)))) \<noteq> e_type (entities s r)
       then GS_LOG (LogDuplicateCreate (c_netId (clients s client)) (fst (Read 13 inPacket))
              (toEntityType x (fst (Read 4 (snd (Read 13 inPacket)))))
              (map_option (\<lambda>c. c_netId (clients s c)) (lockClient s (e_client (entities s r))))
              (e_type (entities s r))) (readState x client inPacket 1 s)
       else readState x client inPacket 1 s)"
    by (simp only: ProcessClonePacket_unfold e ProcessClonePacket_read_result split: prod.split) simp
qed


lemma create_registers:
  assumes "GetEntity s 0 (fst (Read 13 inPacket)) = None"
  shows "m_entityList (snd (snd (ProcessClonePacket x client inPacket 1 out s))) = m_entityList s @ [nextEntity s]"
    and "m_entitiesById (snd (snd (ProcessClonePacket x client inPacket 1 out s)))
          = (m_entitiesById s)(fst (Read 13 inPacket) := Some (nextEntity s))"
  using assms
  by (simp_all add: ProcessClonePacket_unfold split_def ProcessClonePacket_entity_def Let_def)


section \<open>MaybeFlushBuffer and the 1100-byte bound\<close>

text \<open>
  C9, as the program has it: \<open>MaybeFlushBuffer\<close> flushes exactly when the LZ4 bound of the
  payload length is greater than 1100: then one packet goes to the client and the cursor
  returns to 0; otherwise buffer and state are untouched. The bound is exactly 1100 for a
  payload of 1080 bytes, which is therefore not flushed.
\<close>

theorem MaybeFlushBuffer_threshold:
  "(if 1100 < LZ4_compressBound (GetDataLength buffer)
    then (\<exists>payload. c_outbox (clients (snd (MaybeFlushBuffer buffer msgType frameIndex client s)) client)
            = c_outbox (clients s client) @ [PackedPacket msgType frameIndex payload])
         \<and> m_curBit (fst (MaybeFlushBuffer buffer msgType frameIndex client s)) = 0
    else MaybeFlushBuffer buffer msgType frameIndex client s = (buffer, s))
   \<and> (LZ4_compressBound (GetDataLength buffer) = 1100 \<longleftrightarrow> GetDataLength buffer = 1080)"
proof -
  have "1100 < LZ4_compressBound (GetDataLength buffer) \<Longrightarrow> 0 < GetDataLength buffer"
    by (simp add: LZ4_compressBound_def split: if_splits)
  moreover have "LZ4_compressBound (GetDataLength buffer) = 1100 \<longleftrightarrow> GetDataLength buffer = 1080"
    by (auto simp: LZ4_compressBound_def LZ4_MAX_INPUT_SIZE_def split: if_splits)
  ultimately show ?thesis
    by (simp add: MaybeFlushBuffer_def FlushBuffer_def Let_def SendPacket_def updClient_def
        GS_LOG_def SetCurrentBit_def)
qed

text \<open>
  C9 as stated fails: with a bound of exactly 1100 bytes nothing is flushed.
\<close>

theorem MaybeFlushBuffer_at_1100_counterexample:
  "LZ4_compressBound (GetDataLength ackBuffer1080) = 1100
   \<and> MaybeFlushBuffer ackBuffer1080 msgPackedAcks 0 1 oneClientState = (ackBuffer1080, oneClientState)
   \<and> c_outbox (clients (snd (MaybeFlushBuffer ackBuffer1080 msgPackedAcks 0 1 oneClientState)) 1) = []"
  by (simp add: MaybeFlushBuffer_def LZ4_compressBound_def LZ4_MAX_INPUT_SIZE_def GetDataLength_def
      ackBuffer1080_def oneClientState_def initialState_def newClient_def)

lemma dupCreateRecord_fields:
  "fst (Read 13 dupCreateRecord) = 5"
  "fst (Read 4 (snd (Read 13 dupCreateRecord))) = 6"
  by code_simp+

lemma twoClientState_sel:
  "m_entitiesById twoClientState 5 = Some 0"
  "m_entityList twoClientState = [0, 1]"
  "pendingCloneRemovals twoClientState = []"
  "entities twoClientState 0 = pedEntity"
  "entities twoClientState (Suc 0) = playerEntity2"
  "liveClients twoClientState = {1, 2}"
  "registry twoClientState = [1, 2]"
  "g_oneSyncLogVar twoClientState = []"
  "g_logQueue twoClientState = []"
  "m_objectIdsUsed twoClientState = {5, 6}"
  "m_objectIdsSent twoClientState = {5, 6}"
  "c_netId (clients twoClientState 1) = 1"
  "c_netId (clients twoClientState (Suc 0)) = 1"
  "c_netId (clients twoClientState 2) = 2"
  "c_slotId (clients twoClientState 1) = 0"
  "c_slotId (clients twoClientState (Suc 0)) = 0"
  "c_slotId (clients twoClientState 2) = 1"
  "c_syncTs (clients twoClientState 2) = None"
  by (simp_all add: twoClientState_def initialState_def newClient_def)

lemma twoClientState_ped:
  "GetEntity twoClientState 0 5 = Some 0"
  "lockClient twoClientState (e_client (entities twoClientState 0)) = Some 1"
  "e_type (entities twoClientState 0) = Ped"
  "ackedCreation (entities twoClientState 0) = {0}"
  "didDeletion (entities twoClientState 0) = {}"
  by (simp_all add: GetEntity_def lockEntity_def entityAlive_def lockClient_def MaxObjectId_def
      twoClientState_sel pedEntity_def blankEntity_def)

section \<open>Duplicate creates\<close>

text \<open>
  C3, as the program has it: a create record whose object id already refers to a valid
  entity (one whose owner still exists) is dropped. The out-parameter keeps its value, no
  entity changes (so the sender's \<open>ackedCreation\<close> and \<open>didDeletion\<close> bits on that entity
  stay as they were), the registry is untouched, and the log gets one entry exactly when
  logging is on and the record's type differs from the entity's type.
\<close>

theorem duplicate_create_dropped:
  assumes "GetEntity s 0 (fst (Read 13 inPacket)) = Some r"
    and "lockClient s (e_client (entities s r)) \<noteq> None"
  shows "fst (ProcessClonePacket x client inPacket 1 out s) = out
    \<and> entities (snd (snd (ProcessClonePacket x client inPacket 1 out s))) = entities s
    \<and> m_entityList (snd (snd (ProcessClonePacket x client inPacket 1 out s))) = m_entityList s
    \<and> m_entitiesById (snd (snd (ProcessClonePacket x client inPacket 1 out s))) = m_entitiesById s
    \<and> g_logQueue (snd (snd (ProcessClonePacket x client inPacket 1 out s))) =
         (if g_oneSyncLogVar s \<noteq> []
             \<and> toEntityType x (fst (Read 4 (snd (Read 13 inPacket)))) \<noteq> e_type (entities s r)
          then g_logQueue s @
            [LogDuplicateCreate (c_netId (clients s client)) (fst (Read 13 inPacket))
               (toEntityType x (fst (Read 4 (snd (Read 13 inPacket)))))
               (map_option (\<lambda>c. c_netId (clients s c)) (lockClient s (e_client (entities s r))))
               (e_type (entities s r))]
          else g_logQueue s)"
  using dup_create_result [OF assms, of x client out] by simp

theorem duplicate_create_dropped_witness:
  "GetEntity twoClientState 0 (fst (Read 13 dupCreateRecord)) = Some 0
   \<and> lockClient twoClientState (e_client (entities twoClientState 0)) \<noteq> None
   \<and> fst (ProcessClonePacket sampleExternals 2 dupCreateRecord 1 0 twoClientState) = 0
   \<and> entities (snd (snd (ProcessClonePacket sampleExternals 2 dupCreateRecord 1 0 twoClientState)))
        = entities twoClientState
   \<and> g_logQueue (snd (snd (ProcessClonePacket sampleExternals 2 dupCreateRecord 1 0 twoClientState))) = []"
proof -
  have h1: "GetEntity twoClientState 0 (fst (Read 13 dupCreateRecord)) = Some 0"
    by (simp add: dupCreateRecord_fields twoClientState_ped)
  have h2: "lockClient twoClientState (e_client (entities twoClientState 0)) \<noteq> None"
    by (simp only: twoClientState_ped) simp
  show ?thesis
    using duplicate_create_dropped [OF h1 h2, of sampleExternals 2 0] h1 h2
    by (simp add: twoClientState_sel)
qed

text \<open>
  C3 as stated fails: after a duplicate create from client 2 (slot 1) for the ped of
  client 1, the entity's \<open>ackedCreation\<close> bit of slot 1 is still clear.
\<close>

theorem duplicate_create_ack_bits_counterexample:
  "GetEntity twoClientState 0 (fst (Read 13 dupCreateRecord)) = Some 0
   \<and> c_slotId (clients twoClientState 2) = 1
   \<and> 1 < MAX_CLIENTS sampleExternals
   \<and> 1 \<notin> ackedCreation (entities (snd (snd (ProcessClonePacket sampleExternals 2 dupCreateRecord 1 0
            twoClientState))) 0)"
proof -
  have h1: "GetEntity twoClientState 0 (fst (Read 13 dupCreateRecord)) = Some 0"
    by (simp add: dupCreateRecord_fields twoClientState_ped)
  have h2: "lockClient twoClientState (e_client (entities twoClientState 0)) \<noteq> None"
    by (simp only: twoClientState_ped) simp
  have "entities (snd (snd (ProcessClonePacket sampleExternals 2 dupCreateRecord 1 0 twoClientState)))
          = entities twoClientState"
    using dup_create_result(2) [OF h1 h2, of sampleExternals 2 0] by simp
  then show ?thesis
    using h1 by (simp add: twoClientState_sel pedEntity_def blankEntity_def sampleExternals_def)
qed

section \<open>The ack of a rejected create\<close>

lemma nat_to_bits_samples:
  "nat_to_bits 3 (Suc 0) = [False, False, True]"
  "nat_to_bits 13 0 = replicate 13 False"
  by code_simp+

lemma create_dead_sender_out:
  assumes "\<not> (\<exists>r. GetEntity s 0 (fst (Read 13 inPacket)) = Some r
                 \<and> lockClient s (e_client (entities s r)) \<noteq> None)"
    and "client \<notin> liveClients s"
  shows "fst (ProcessClonePacket x client inPacket 1 out s) = out"
  using assms
  by (simp add: ProcessClonePacket_unfold split_def ProcessClonePacket_entity_def
      ProcessClonePacket_accept_def Let_def lockClient_def newEntity_def split: option.split)

text \<open>
  C10: \<open>ProcessClonePacket\<close> rejects a create, returning before it writes the
  out-parameter, when the object id already refers to a valid entity (a duplicate create)
  or when the owner of the entity it has just made, the sender, is gone. The out-parameter
  of \<open>ProcessCloneCreate\<close> then keeps its initial 0: bit 0 of the used object ids is set,
  and the create-ack written to the sender's ack buffer carries object id 0 (the rest of
  \<open>ProcessCloneCreate\<close> runs as always, with 0 for the object id).
\<close>

theorem rejected_create_acks_object_zero:
  assumes "(\<exists>r. GetEntity s 0 (fst (Read 13 inPacket)) = Some r
                \<and> lockClient s (e_client (entities s r)) \<noteq> None)
           \<or> client \<notin> liveClients s"
  shows "m_objectIdsUsed (snd (snd (ProcessCloneCreate x client inPacket ackPacket s)))
           = insert 0 (m_objectIdsUsed s)
    \<and> ProcessCloneCreate x client inPacket ackPacket s =
         (let s1 = snd (snd (ProcessClonePacket x client inPacket 1 0 s));
              s2 = s1\<lparr>m_objectIdsUsed := insert 0 (m_objectIdsUsed s1)\<rparr>;
              a2 = snd (Write 13 0 (snd (Write 3 1 ackPacket)));
              (a3, s3) = ackFlush client a2 s2
          in (fst (snd (ProcessClonePacket x client inPacket 1 0 s)), a3,
              GS_LOG (LogCloneCreate (c_netId (clients s3 client)) 0) s3))"
proof -
  have out: "fst (ProcessClonePacket x client inPacket 1 0 s) = 0"
  proof (cases "\<exists>r. GetEntity s 0 (fst (Read 13 inPacket)) = Some r
                \<and> lockClient s (e_client (entities s r)) \<noteq> None")
    case True
    then obtain r where "GetEntity s 0 (fst (Read 13 inPacket)) = Some r"
      and "lockClient s (e_client (entities s r)) \<noteq> None" by blast
    then show ?thesis using dup_create_result(1) [of s inPacket r x client 0] by simp
  next
    case False
    then show ?thesis using assms create_dead_sender_out [of s inPacket client x 0] by blast
  qed
  show ?thesis
    using out by (simp add: ProcessCloneCreate_def Let_def split_def bs_set_def MaxObjectId_def)
qed

theorem rejected_create_acks_object_zero_witness:
  "GetEntity twoClientState 0 (fst (Read 13 dupCreateRecord)) = Some 0
   \<and> lockClient twoClientState (e_client (entities twoClientState 0)) \<noteq> None
   \<and> m_objectIdsUsed (snd (snd (ProcessCloneCreate sampleExternals 2 dupCreateRecord
          (newMessageBuffer 16384) twoClientState))) = {0, 5, 6}
   \<and> fst (snd (ProcessCloneCreate sampleExternals 2 dupCreateRecord
          (newMessageBuffer 16384) twoClientState))
        = \<lparr>m_data = [False, False, True] @ replicate 13 False, m_curBit = 16, m_maxBit = 131072\<rparr>"
proof -
  have h1: "GetEntity twoClientState 0 (fst (Read 13 dupCreateRecord)) = Some 0"
    by (simp add: dupCreateRecord_fields twoClientState_ped)
  have h2: "lockClient twoClientState (e_client (entities twoClientState 0)) \<noteq> None"
    by (simp only: twoClientState_ped) simp
  have h: "(\<exists>r. GetEntity twoClientState 0 (fst (Read 13 dupCreateRecord)) = Some r
                \<and> lockClient twoClientState (e_client (entities twoClientState r)) \<noteq> None)
           \<or> 2 \<notin> liveClients twoClientState"
    using h1 h2 by blast
  show ?thesis
    using rejected_create_acks_object_zero [OF h, of sampleExternals "newMessageBuffer 16384"] h1 h2
    by (simp add: twoClientState_sel Let_def split_def ackFlush_def MaybeFlushBuffer_def
        LZ4_compressBound_def LZ4_MAX_INPUT_SIZE_def GetDataLength_def Write_def
        newMessageBuffer_def nat_to_bits_samples padTake_def insert_commute)
qed

section \<open>Sent and used object ids\<close>



lemma oneClientState_sel:
  "m_entitiesById oneClientState = (\<lambda>_. None)"
  "m_entityList oneClientState = []"
  "pendingCloneRemovals oneClientState = []"
  "liveClients oneClientState = {1}"
  "registry oneClientState = [1]"
  "m_objectIdsUsed oneClientState = {}"
  "m_objectIdsSent oneClientState = {}"
  "nextEntity oneClientState = 0"
  by (simp_all add: oneClientState_def initialState_def)

lemma gatherIds_frame [simp]:
  "m_entitiesById (snd (gatherIds n i c ids s)) = m_entitiesById s"
  "m_entityList (snd (gatherIds n i c ids s)) = m_entityList s"
  "pendingCloneRemovals (snd (gatherIds n i c ids s)) = pendingCloneRemovals s"
  "liveClients (snd (gatherIds n i c ids s)) = liveClients s"
  "m_objectIdsUsed (snd (gatherIds n i c ids s)) = m_objectIdsUsed s"
  by (induction n i c ids s rule: gatherIds.induct; simp split: option.split)+

lemma SendObjectIds_frame [simp]:
  "m_entitiesById (SendObjectIds c n s) = m_entitiesById s"
  "m_entityList (SendObjectIds c n s) = m_entityList s"
  "pendingCloneRemovals (SendObjectIds c n s) = pendingCloneRemovals s"
  "liveClients (SendObjectIds c n s) = liveClients s"
  "m_objectIdsUsed (SendObjectIds c n s) = m_objectIdsUsed s"
  by (simp_all add: SendObjectIds_def split_def Let_def)




lemma syncRecord5_fields: "fst (Read 13 syncRecord5) = 5"
  by code_simp

lemma sync_wrong_owner_entity:
  assumes "GetEntity s 0 objectId = Some r"
    and "lockClient s (e_client (entities s r)) = Some owner"
    and "c_netId (clients s owner) \<noteq> c_netId (clients s client)"
    and "pt = 2"
  shows "ProcessClonePacket_entity x client pt objectId objectType bitBytes ts out s =
     (out, GS_LOG (LogWrongOwner objectId)
        (updEntity r (\<lambda>e. e\<lparr>ackedCreation := bs_set (MAX_CLIENTS x) (c_slotId (clients s client)) (ackedCreation e)\<rparr>)
          (updEntity r (\<lambda>e. e\<lparr>didDeletion := bs_reset (MAX_CLIENTS x) (c_slotId (clients s client)) (didDeletion e)\<rparr>) s)))"
  using assms
  by (simp add: ProcessClonePacket_entity_def ProcessClonePacket_accept_def Let_def)

lemma sync_wrong_owner_result:
  assumes "GetEntity s 0 (fst (Read 13 inPacket)) = Some r"
    and "lockClient s (e_client (entities s r)) = Some owner"
    and "c_netId (clients s owner) \<noteq> c_netId (clients s client)"
  shows "fst (ProcessClonePacket x client inPacket 2 out s) = out"
    and "entities (snd (snd (ProcessClonePacket x client inPacket 2 out s))) =
      (entities s)(r := (entities s r)
         \<lparr>didDeletion := bs_reset (MAX_CLIENTS x) (c_slotId (clients s client)) (didDeletion (entities s r)),
          ackedCreation := bs_set (MAX_CLIENTS x) (c_slotId (clients s client)) (ackedCreation (entities s r))\<rparr>)"
    and "m_entityList (snd (snd (ProcessClonePacket x client inPacket 2 out s))) = m_entityList s"
    and "m_entitiesById (snd (snd (ProcessClonePacket x client inPacket 2 out s))) = m_entitiesById s"
proof -
  have e: "ProcessClonePacket_entity x client 2 (fst (Read 13 inPacket)) ot bb ts out
             (readState x client inPacket 2 s) =
     (out, GS_LOG (LogWrongOwner (fst (Read 13 inPacket)))
        (updEntity r (\<lambda>e. e\<lparr>ackedCreation := bs_set (MAX_CLIENTS x) (c_slotId (clients s client)) (ackedCreation e)\<rparr>)
          (updEntity r (\<lambda>e. e\<lparr>didDeletion := bs_reset (MAX_CLIENTS x) (c_slotId (clients s client)) (didDeletion e)\<rparr>)
             (readState x client inPacket 2 s))))" for ot bb ts
    using assms
    by (subst sync_wrong_owner_entity [where r = r and owner = owner]) simp_all
  show "fst (ProcessClonePacket x client inPacket 2 out s) = out"
    by (simp only: ProcessClonePacket_unfold e split: prod.split) simp
  show "entities (snd (snd (ProcessClonePacket x client inPacket 2 out s))) =
      (entities s)(r := (entities s r)
         \<lparr>didDeletion := bs_reset (MAX_CLIENTS x) (c_slotId (clients s client)) (didDeletion (entities s r)),
          ackedCreation := bs_set (MAX_CLIENTS x) (c_slotId (clients s client)) (ackedCreation (entities s r))\<rparr>)"
    by (simp only: ProcessClonePacket_unfold e split: prod.split) (simp add: fun_eq_iff)
  show "m_entityList (snd (snd (ProcessClonePacket x client inPacket 2 out s))) = m_entityList s"
    by (simp only: ProcessClonePacket_unfold e split: prod.split) simp
  show "m_entitiesById (snd (snd (ProcessClonePacket x client inPacket 2 out s))) = m_entitiesById s"
    by (simp only: ProcessClonePacket_unfold e split: prod.split) simp
qed

section \<open>A sync from a client that does not own the entity\<close>

text \<open>
  C4, as the program has it: a sync record (tag 2) for a valid entity owned by another
  client than the sender is dropped after the ack bits have been written. The sync tree
  and the entity's data are not parsed, \<open>timestamp\<close> and \<open>lastResends\<close> are unchanged, no
  other entity changes and the out-parameter keeps its value; but on that entity the
  sender's \<open>ackedCreation\<close> bit is set and its \<open>didDeletion\<close> bit is cleared.
\<close>

theorem sync_by_non_owner:
  assumes "GetEntity s 0 (fst (Read 13 inPacket)) = Some r"
    and "lockClient s (e_client (entities s r)) = Some owner"
    and "c_netId (clients s owner) \<noteq> c_netId (clients s client)"
  shows "e_syncTree (entities (snd (snd (ProcessClonePacket x client inPacket 2 out s))) r)
           = e_syncTree (entities s r)
    \<and> e_data (entities (snd (snd (ProcessClonePacket x client inPacket 2 out s))) r)
           = e_data (entities s r)
    \<and> e_timestamp (entities (snd (snd (ProcessClonePacket x client inPacket 2 out s))) r)
           = e_timestamp (entities s r)
    \<and> lastResends (entities (snd (snd (ProcessClonePacket x client inPacket 2 out s))) r)
           = lastResends (entities s r)
    \<and> ackedCreation (entities (snd (snd (ProcessClonePacket x client inPacket 2 out s))) r)
           = bs_set (MAX_CLIENTS x) (c_slotId (clients s client)) (ackedCreation (entities s r))
    \<and> didDeletion (entities (snd (snd (ProcessClonePacket x client inPacket 2 out s))) r)
           = bs_reset (MAX_CLIENTS x) (c_slotId (clients s client)) (didDeletion (entities s r))
    \<and> (\<forall>r'. r' \<noteq> r \<longrightarrow>
          entities (snd (snd (ProcessClonePacket x client inPacket 2 out s))) r' = entities s r')
    \<and> m_entityList (snd (snd (ProcessClonePacket x client inPacket 2 out s))) = m_entityList s
    \<and> fst (ProcessClonePacket x client inPacket 2 out s) = out"
  using sync_wrong_owner_result [OF assms, of x out] by simp

lemma twoClientState_ped_owner:
  "GetEntity twoClientState 0 (fst (Read 13 syncRecord5)) = Some 0"
  "lockClient twoClientState (e_client (entities twoClientState 0)) = Some 1"
  "c_netId (clients twoClientState 1) \<noteq> c_netId (clients twoClientState 2)"
  by (simp_all add: syncRecord5_fields GetEntity_def lockEntity_def entityAlive_def lockClient_def
      MaxObjectId_def twoClientState_sel pedEntity_def blankEntity_def)

theorem sync_by_non_owner_witness:
  "GetEntity twoClientState 0 (fst (Read 13 syncRecord5)) = Some 0
   \<and> lockClient twoClientState (e_client (entities twoClientState 0)) = Some 1
   \<and> c_netId (clients twoClientState 1) \<noteq> c_netId (clients twoClientState 2)
   \<and> e_syncTree (entities (snd (snd (ProcessClonePacket sampleExternals 2 syncRecord5 2 0 twoClientState))) 0)
        = Some (sampleTree (300, 0, 0))
   \<and> e_timestamp (entities (snd (snd (ProcessClonePacket sampleExternals 2 syncRecord5 2 0 twoClientState))) 0) = 0
   \<and> ackedCreation (entities (snd (snd (ProcessClonePacket sampleExternals 2 syncRecord5 2 0 twoClientState))) 0)
        = {0, 1}
   \<and> didDeletion (entities (snd (snd (ProcessClonePacket sampleExternals 2 syncRecord5 2 0 twoClientState))) 0)
        = {}"
  using sync_by_non_owner [OF twoClientState_ped_owner, of sampleExternals 0] twoClientState_ped_owner
  by (simp add: twoClientState_sel pedEntity_def blankEntity_def sampleExternals_def
      bs_set_def bs_reset_def insert_commute)

text \<open>
  C4 as stated fails: client 2 syncs the ped of client 1, and the ped's \<open>ackedCreation\<close>
  bits change.
\<close>

theorem sync_by_non_owner_ack_bits_counterexample:
  "GetEntity twoClientState 0 (fst (Read 13 syncRecord5)) = Some 0
   \<and> lockClient twoClientState (e_client (entities twoClientState 0)) = Some 1
   \<and> c_netId (clients twoClientState 1) \<noteq> c_netId (clients twoClientState 2)
   \<and> ackedCreation (entities (snd (snd (ProcessClonePacket sampleExternals 2 syncRecord5 2 0 twoClientState))) 0)
        \<noteq> ackedCreation (entities twoClientState 0)"
  using sync_wrong_owner_result(2) [OF twoClientState_ped_owner, of sampleExternals 0] twoClientState_ped_owner
  by (simp add: twoClientState_sel pedEntity_def blankEntity_def sampleExternals_def
      bs_set_def bs_reset_def)

lemma RemoveClone_unregistered:
  assumes "lockEntity s (m_entitiesById s objectId) = None"
  shows "RemoveClone client objectId s = GS_LOG (LogRemoveClone (c_netId (clients s client)) objectId) s"
  using assms by (simp add: RemoveClone_def Let_def)

lemma GetEntity_lockEntity:
  "objectId < MaxObjectId \<Longrightarrow> GetEntity s pid objectId = lockEntity s (m_entitiesById s objectId)"
  by (simp add: GetEntity_def)

lemma sync_unregistered:
  assumes "GetEntity s 0 (fst (Read 13 inPacket)) = None"
  shows "entities (snd (snd (ProcessClonePacket x client inPacket 2 out s))) = entities s"
    and "m_entityList (snd (snd (ProcessClonePacket x client inPacket 2 out s))) = m_entityList s"
    and "m_entitiesById (snd (snd (ProcessClonePacket x client inPacket 2 out s))) = m_entitiesById s"
  using assms
  by (simp_all add: ProcessClonePacket_unfold split_def ProcessClonePacket_entity_def Let_def)

lemma ProcessCloneSync_unregistered:
  assumes "GetEntity s 0 (fst (Read 13 inPacket)) = None"
  shows "entities (snd (snd (ProcessCloneSync x client inPacket ackPacket s))) = entities s"
    and "m_entityList (snd (snd (ProcessCloneSync x client inPacket ackPacket s))) = m_entityList s"
    and "m_entitiesById (snd (snd (ProcessCloneSync x client inPacket ackPacket s))) = m_entitiesById s"
  using sync_unregistered [OF assms, of x client 0]
  by (simp_all add: ProcessCloneSync_def Let_def split_def)

lemma ProcessCloneRemove_unregistered:
  assumes "GetEntity s 0 (fst (Read 13 inPacket)) = None"
  shows "entities (snd (snd (ProcessCloneRemove client inPacket ackPacket s))) = entities s"
    and "m_entityList (snd (snd (ProcessCloneRemove client inPacket ackPacket s))) = m_entityList s"
    and "m_entitiesById (snd (snd (ProcessCloneRemove client inPacket ackPacket s))) = m_entitiesById s"
proof -
  have l: "lockEntity s (m_entitiesById s (fst (Read 13 inPacket))) = None"
    using assms GetEntity_lockEntity [OF Read_13_bound, of s 0 inPacket] by simp
  have r: "RemoveClone client (fst (Read 13 inPacket)) (snd (ackFlush client a s))
            = GS_LOG (LogRemoveClone (c_netId (clients s client)) (fst (Read 13 inPacket)))
                (snd (ackFlush client a s))" for a
    using l by (subst RemoveClone_unregistered) simp_all
  show "entities (snd (snd (ProcessCloneRemove client inPacket ackPacket s))) = entities s"
    using assms by (simp add: ProcessCloneRemove_def Let_def split_def r)
  show "m_entityList (snd (snd (ProcessCloneRemove client inPacket ackPacket s))) = m_entityList s"
    using assms by (simp add: ProcessCloneRemove_def Let_def split_def r)
  show "m_entitiesById (snd (snd (ProcessCloneRemove client inPacket ackPacket s))) = m_entitiesById s"
    using assms by (simp add: ProcessCloneRemove_def Let_def split_def r)
qed

lemma ProcessCloneTakeover_unregistered:
  assumes "GetEntity s 0 (fst (Read 13 (snd (Read 16 inPacket)))) = None"
  shows "snd (ProcessCloneTakeover client inPacket s) = s"
  using assms by (simp add: ProcessCloneTakeover_def Let_def split_def)

lemma ProcessCloneCreate_registers:
  assumes "GetEntity s 0 (fst (Read 13 inPacket)) = None"
  shows "m_entityList (snd (snd (ProcessCloneCreate x client inPacket ackPacket s))) = m_entityList s @ [nextEntity s]"
    and "m_entitiesById (snd (snd (ProcessCloneCreate x client inPacket ackPacket s)))
          = (m_entitiesById s)(fst (Read 13 inPacket) := Some (nextEntity s))"
  using create_registers [OF assms, of x client 0]
  by (simp_all add: ProcessCloneCreate_def Let_def split_def)

lemma step_unregistered:
  assumes "GetEntity s 0 (recordObjectId msgBuf) = None" and "fst (Read 3 msgBuf) \<noteq> 1"
  shows "entities (stepState x client msgBuf ackPacket s) = entities s"
    and "m_entityList (stepState x client msgBuf ackPacket s) = m_entityList s"
    and "m_entitiesById (stepState x client msgBuf ackPacket s) = m_entitiesById s"
  using assms
  by (cases "fst (Read 3 msgBuf) = 4";
      simp add: stepState_def ParseClonePacket_step_def recordObjectId_def Let_def split_def
      ProcessCloneSync_unregistered ProcessCloneRemove_unregistered ProcessCloneTakeover_unregistered)+

lemma step_create_registers:
  assumes "GetEntity s 0 (recordObjectId msgBuf) = None" and "fst (Read 3 msgBuf) = 1"
  shows "m_entityList (stepState x client msgBuf ackPacket s) = m_entityList s @ [nextEntity s]"
    and "m_entitiesById (stepState x client msgBuf ackPacket s)
          = (m_entitiesById s)(recordObjectId msgBuf := Some (nextEntity s))"
  using assms
  by (simp_all add: stepState_def ParseClonePacket_step_def recordObjectId_def Let_def split_def
      ProcessCloneCreate_registers)

lemma recordObjectId_bound: "recordObjectId msgBuf < MaxObjectId"
  by (simp add: recordObjectId_def Read_13_bound)

section \<open>Object ids out of range, and object id 0\<close>

text \<open>
  C8, as the program has it: the object id of a record is a 13-bit field, so it is always
  below 8192; and 0 is an id like any other. A record for an id under which no live
  entity is registered (0 included) changes no entity and no registry slot unless it is
  a create (tag 1); a create for such an id makes a new entity and registers it under
  that id.
\<close>

theorem object_id_field_range_and_unregistered_ids:
  "recordObjectId msgBuf < MaxObjectId
   \<and> (GetEntity s 0 (recordObjectId msgBuf) = None \<longrightarrow>
        (if fst (Read 3 msgBuf) = 1
         then m_entityList (stepState x client msgBuf ackPacket s) = m_entityList s @ [nextEntity s]
              \<and> m_entitiesById (stepState x client msgBuf ackPacket s)
                   = (m_entitiesById s)(recordObjectId msgBuf := Some (nextEntity s))
         else entities (stepState x client msgBuf ackPacket s) = entities s
              \<and> m_entityList (stepState x client msgBuf ackPacket s) = m_entityList s
              \<and> m_entitiesById (stepState x client msgBuf ackPacket s) = m_entitiesById s))"
  using step_unregistered [of s msgBuf x client ackPacket]
    step_create_registers [of s msgBuf x client ackPacket] recordObjectId_bound [of msgBuf]
  by simp

lemma createZeroPacket_fields:
  "fst (Read 3 createZeroPacket) = Suc 0"
  "recordObjectId createZeroPacket = 0"
  "fst (Read 3 syncZeroPacket) = 2"
  "recordObjectId syncZeroPacket = 0"
  by code_simp+

lemma oneClientState_no_entity: "GetEntity oneClientState 0 oid = None"
  by (simp add: GetEntity_def lockEntity_def oneClientState_sel)

theorem object_id_field_range_and_unregistered_ids_witness:
  "GetEntity oneClientState 0 (recordObjectId syncZeroPacket) = None
   \<and> recordObjectId syncZeroPacket = 0
   \<and> entities (stepState sampleExternals 1 syncZeroPacket (newMessageBuffer 16384) oneClientState)
        = entities oneClientState
   \<and> m_entityList (stepState sampleExternals 1 syncZeroPacket (newMessageBuffer 16384) oneClientState) = []
   \<and> m_entitiesById (stepState sampleExternals 1 syncZeroPacket (newMessageBuffer 16384) oneClientState) 0 = None"
  using object_id_field_range_and_unregistered_ids
          [of syncZeroPacket oneClientState sampleExternals 1 "newMessageBuffer 16384"]
  by (simp add: oneClientState_no_entity createZeroPacket_fields oneClientState_sel)

text \<open>
  C8 as stated fails: a create record with object id 0 makes an entity and writes
  registry slot 0.
\<close>

theorem create_with_object_id_zero_counterexample:
  "fst (Read 3 createZeroPacket) = 1
   \<and> recordObjectId createZeroPacket = 0
   \<and> m_entityList oneClientState = []
   \<and> m_entitiesById oneClientState 0 = None
   \<and> m_entityList (stepState sampleExternals 1 createZeroPacket (newMessageBuffer 16384) oneClientState) = [0]
   \<and> m_entitiesById (stepState sampleExternals 1 createZeroPacket (newMessageBuffer 16384) oneClientState) 0
        = Some 0"
  using step_create_registers [of oneClientState createZeroPacket sampleExternals 1 "newMessageBuffer 16384"]
  by (simp add: oneClientState_no_entity createZeroPacket_fields oneClientState_sel)

lemma ackCreate5Packet_fields:
  "fst (Read 3 ackCreate5Packet) = Suc 0"
  "fst (Read 13 (snd (Read 3 ackCreate5Packet))) = 5"
  "fst (Read 13 (snd (Read 13 (snd (Read 3 ackCreate5Packet))))) = 7168"
  "m_maxBit ackCreate5Packet = 32"
  by code_simp+

lemma ParseAckPacket_case1_clients [simp]:
  "clients (snd (ParseAckPacket_case1 x client b s)) = clients s"
  by (simp add: ParseAckPacket_case1_def Let_def split_def split: option.split)

lemma ack_create_falls_through:
  assumes "fst (Read 3 msgBuf) = 1"
  shows "pendingRemovals (GetClientData (snd (snd (ParseAckPacket_step x client msgBuf s))) client)
     = bs_reset MaxObjectId (fst (Read 13 (snd (Read 13 (snd (Read 3 msgBuf))))))
         (pendingRemovals (GetClientData s client))"
proof -
  have b: "fst (ParseAckPacket_case1 x client b s) = snd (Read 13 b)" for b
    by (simp add: ParseAckPacket_case1_def Let_def split_def split: option.split)
  show ?thesis
    using assms
    by (simp add: ParseAckPacket_step_def Let_def split_def ParseAckPacket_case3_def b GetClientData_def)
qed

section \<open>The create-ack and the pending removals\<close>

text \<open>
  C1 fails on the program: client 2 acknowledges the creation of object 5 in a four-byte
  ack packet. After the create-ack has been handled, control runs on into the remove-ack
  case, which takes the next 13 bits (the terminator and padding, 7168) for an object id
  and clears that pending removal of the client.
\<close>

theorem create_ack_clears_pending_removal:
  "fst (Read 3 ackCreate5Packet) = 1
   \<and> fst (Read 13 (snd (Read 3 ackCreate5Packet))) = 5
   \<and> pendingRemovals (GetClientData twoClientState 2) = {7168}
   \<and> pendingRemovals (GetClientData
         (snd (snd (ParseAckPacket_step sampleExternals 2 ackCreate5Packet twoClientState))) 2) = {}"
  using ack_create_falls_through [of ackCreate5Packet sampleExternals 2 twoClientState]
  by (simp add: ackCreate5Packet_fields GetClientData_def twoClientState_def initialState_def
      newClient_def newClientData_def bs_reset_def MaxObjectId_def)










section \<open>The fate of an orphan on a client drop\<close>










section \<open>The sync delay\<close>




section \<open>The creation and deletion bits are never both set\<close>

lemma ackInvariant_frame:
  assumes "m_entityList s' = m_entityList s"
    and "\<And>r. ackedCreation (entities s' r) = ackedCreation (entities s r)"
    and "\<And>r. didDeletion (entities s' r) = didDeletion (entities s r)"
  shows "ackInvariant s' = ackInvariant s"
  using assms by (simp add: ackInvariant_def ackConsistent_def)

lemma ack_set_reset: "A \<inter> D = {} \<Longrightarrow> bs_set N i A \<inter> bs_reset N i D = {}"
  by (auto simp: bs_set_def bs_reset_def)

lemma ack_reset_set: "A \<inter> D = {} \<Longrightarrow> bs_reset N i A \<inter> bs_set N i D = {}"
  by (auto simp: bs_set_def bs_reset_def)

lemma parseEntity_ack [simp]:
  "ackedCreation (parseEntity x st pt e) = ackedCreation e"
  "didDeletion (parseEntity x st pt e) = didDeletion e"
  by (simp_all add: parseEntity_def Let_def split_def split: option.split)

lemma accept_ack:
  "ackedCreation (entities (snd (ProcessClonePacket_accept x client pt oid bb ts r ch out s)) r')
     = (if r' = r then bs_set (MAX_CLIENTS x) (c_slotId (clients s client)) (ackedCreation (entities s r))
        else ackedCreation (entities s r'))"
  "didDeletion (entities (snd (ProcessClonePacket_accept x client pt oid bb ts r ch out s)) r')
     = (if r' = r then bs_reset (MAX_CLIENTS x) (c_slotId (clients s client)) (didDeletion (entities s r))
        else didDeletion (entities s r'))"
  by (simp_all add: ProcessClonePacket_accept_def Let_def split_def split: option.split)

lemma accept_inv:
  assumes "\<forall>q \<in> set (m_entityList s). ackConsistent (entities s q)"
  shows "ackInvariant (snd (ProcessClonePacket_accept x client pt oid bb ts r ch out s))"
proof -
  have "ackConsistent (entities (snd (ProcessClonePacket_accept x client pt oid bb ts r ch out s)) q)"
    if q: "q \<in> set (m_entityList s)" for q
  proof -
    have c: "ackedCreation (entities s q) \<inter> didDeletion (entities s q) = {}"
      using assms q by (simp add: ackConsistent_def)
    show ?thesis
      using c ack_set_reset [OF c, of "MAX_CLIENTS x" "c_slotId (clients s client)"]
      by (auto simp: ackConsistent_def accept_ack)
  qed
  then show ?thesis by (simp add: ackInvariant_def)
qed

lemma ackInvariant_eq:
  "m_entityList s' = m_entityList s \<Longrightarrow> entities s' = entities s \<Longrightarrow> ackInvariant s' = ackInvariant s"
  by (simp add: ackInvariant_def)

lemma entity_inv:
  assumes "ackInvariant s"
  shows "ackInvariant (snd (ProcessClonePacket_entity x client pt oid ot bb ts out s))"
proof -
  let ?s3 = "s\<lparr>entities := (entities s)(nextEntity s := newEntity x client ot (m_frameIndex s) oid),
               nextEntity := nextEntity s + 1,
               m_entityList := m_entityList s @ [nextEntity s],
               m_entitiesById := (m_entitiesById s)(oid := Some (nextEntity s))\<rparr>"
  have new: "\<forall>q \<in> set (m_entityList ?s3). ackConsistent (entities ?s3 q)"
    using assms by (auto simp: ackInvariant_def ackConsistent_def newEntity_def)
  have old: "\<forall>q \<in> set (m_entityList s). ackConsistent (entities s q)"
    using assms by (simp add: ackInvariant_def)
  have log: "ackInvariant (GS_LOG e s)" for e
    using assms by (simp add: ackInvariant_eq [of "GS_LOG e s" s])
  show ?thesis
    unfolding ProcessClonePacket_entity_def Let_def
    using assms log accept_inv [OF new] accept_inv [OF old]
    by (simp split: option.split)
qed

lemma ProcessClonePacket_inv:
  assumes "ackInvariant s"
  shows "ackInvariant (snd (snd (ProcessClonePacket x client inPacket pt out s)))"
proof -
  have "ackInvariant (readState x client inPacket pt s)"
    using assms by (simp add: ackInvariant_eq [of "readState x client inPacket pt s" s])
  then show ?thesis
    using entity_inv by (simp add: ProcessClonePacket_unfold split_def)
qed

lemma ForAllClients_entities [simp]:
  assumes "\<And>c st. entities (f c st) = entities st"
  shows "entities (ForAllClients f s) = entities s"
  using ForAllClients_frame [of entities f s] assms by simp

lemma ForAllClients_entityList [simp]:
  assumes "\<And>c st. m_entityList (f c st) = m_entityList st"
  shows "m_entityList (ForAllClients f s) = m_entityList s"
  using ForAllClients_frame [of m_entityList f s] assms by simp

lemma clearVehicleSeat_ack [simp]:
  "m_entityList (clearVehicleSeat r s) = m_entityList s"
  "ackedCreation (entities (clearVehicleSeat r s) r') = ackedCreation (entities s r')"
  "didDeletion (entities (clearVehicleSeat r s) r') = didDeletion (entities s r')"
  by (simp_all add: clearVehicleSeat_def Let_def split: option.split)

lemma OnCloneRemove_ack [simp]:
  "m_entityList (OnCloneRemove r oid s) = m_entityList s"
  "ackedCreation (entities (OnCloneRemove r oid s) r') = ackedCreation (entities s r')"
  "didDeletion (entities (OnCloneRemove r oid s) r') = didDeletion (entities s r')"
  by (simp_all add: OnCloneRemove_def Let_def split: option.split)

lemma RemoveClone_ack [simp]:
  "m_entityList (RemoveClone c oid s) = m_entityList s"
  "ackedCreation (entities (RemoveClone c oid s) r') = ackedCreation (entities s r')"
  "didDeletion (entities (RemoveClone c oid s) r') = didDeletion (entities s r')"
  by (simp_all add: RemoveClone_def Let_def split: option.split)

lemma ReassignEntity_ack [simp]:
  "m_entityList (ReassignEntity h c s) = m_entityList s"
  "ackedCreation (entities (ReassignEntity h c s) r') = ackedCreation (entities s r')"
  "didDeletion (entities (ReassignEntity h c s) r') = didDeletion (entities s r')"
  by (simp_all add: ReassignEntity_def Let_def split: option.split)

lemma ProcessCloneTakeover_inv:
  "ackInvariant (snd (ProcessCloneTakeover client inPacket s)) = ackInvariant s"
  by (rule ackInvariant_frame)
     (simp_all add: ProcessCloneTakeover_def Let_def split_def split: option.split)

lemma ProcessCloneRemove_inv:
  "ackInvariant (snd (snd (ProcessCloneRemove client inPacket ackPacket s))) = ackInvariant s"
  by (rule ackInvariant_frame)
     (simp_all add: ProcessCloneRemove_def Let_def split_def split: option.split)

lemma ProcessCloneCreate_inv:
  assumes "ackInvariant s"
  shows "ackInvariant (snd (snd (ProcessCloneCreate x client inPacket ackPacket s)))"
proof -
  have "ackInvariant (snd (snd (ProcessCloneCreate x client inPacket ackPacket s)))
          = ackInvariant (snd (snd (ProcessClonePacket x client inPacket 1 0 s)))"
    by (rule ackInvariant_eq) (simp_all add: ProcessCloneCreate_def Let_def split_def)
  then show ?thesis using ProcessClonePacket_inv [OF assms] by simp
qed

lemma ProcessCloneSync_inv:
  assumes "ackInvariant s"
  shows "ackInvariant (snd (snd (ProcessCloneSync x client inPacket ackPacket s)))"
proof -
  have "ackInvariant (snd (snd (ProcessCloneSync x client inPacket ackPacket s)))
          = ackInvariant (snd (snd (ProcessClonePacket x client inPacket 2 0 s)))"
    by (rule ackInvariant_eq) (simp_all add: ProcessCloneSync_def Let_def split_def)
  then show ?thesis using ProcessClonePacket_inv [OF assms] by simp
qed

lemma clone_step_inv:
  assumes "ackInvariant s"
  shows "ackInvariant (stepState x client msgBuf ackPacket s)"
proof -
  have t5: "ackInvariant (updClient client f (snd (ackFlush client a s)))" for f a
    using assms
    by (simp add: ackInvariant_eq [of "updClient client f (snd (ackFlush client a s))" s])
  have t5': "ackInvariant (snd (ackFlush client a s))" for a
    using assms by (simp add: ackInvariant_eq [of "snd (ackFlush client a s)" s])
  show ?thesis
    using assms t5 t5' ProcessCloneCreate_inv [OF assms] ProcessCloneSync_inv [OF assms]
    by (simp add: stepState_def ParseClonePacket_step_def Let_def split_def
        ProcessCloneTakeover_inv ProcessCloneRemove_inv)
qed

lemma ack_step_inv:
  assumes "ackInvariant s"
  shows "ackInvariant (snd (snd (ParseAckPacket_step x client msgBuf s)))"
proof -
  have c3: "ackInvariant (snd (ParseAckPacket_case3 client b st)) = ackInvariant st" for b st
    by (rule ackInvariant_eq) (simp_all add: ParseAckPacket_case3_def Let_def split_def)
  have c1: "ackInvariant (snd (ParseAckPacket_case1 x client b s))" for b
  proof -
    have l: "m_entityList (snd (ParseAckPacket_case1 x client b s)) = m_entityList s"
      by (simp add: ParseAckPacket_case1_def Let_def split_def split: option.split)
    have "ackConsistent (entities (snd (ParseAckPacket_case1 x client b s)) q)"
      if q: "q \<in> set (m_entityList s)" for q
    proof -
      have c: "ackedCreation (entities s q) \<inter> didDeletion (entities s q) = {}"
        using assms q by (simp add: ackInvariant_def ackConsistent_def)
      show ?thesis
        using c ack_set_reset [OF c, of "MAX_CLIENTS x" "c_slotId (clients s client)"]
        by (auto simp: ackConsistent_def ParseAckPacket_case1_def Let_def split_def
            split: option.split)
    qed
    then show ?thesis using l by (simp add: ackInvariant_def)
  qed
  show ?thesis
    using assms c1 by (simp add: ParseAckPacket_step_def Let_def split_def c3)
qed

lemma Tick_cull_inv:
  assumes "ackInvariant s"
  shows "ackInvariant (Tick_cull x client r s)"
proof -
  have l: "m_entityList (Tick_cull x client r s) = m_entityList s"
    by (simp add: Tick_cull_def Let_def)
  have "ackConsistent (entities (Tick_cull x client r s) q)"
    if q: "q \<in> set (m_entityList s)" for q
  proof -
    have c: "ackedCreation (entities s q) \<inter> didDeletion (entities s q) = {}"
      using assms q by (simp add: ackInvariant_def ackConsistent_def)
    show ?thesis
      using c ack_reset_set [OF c, of "MAX_CLIENTS x" "c_slotId (clients s client)"]
      by (auto simp: ackConsistent_def Tick_cull_def Let_def)
  qed
  then show ?thesis using l by (simp add: ackInvariant_def)
qed


lemma accept_sender_bits:
  "\<not> bs_test (MAX_CLIENTS x) (c_slotId (clients s client))
       (didDeletion (entities (snd (ProcessClonePacket_accept x client pt oid bb ts r ch out s)) r))"
  by (simp add: accept_ack bs_test_def bs_reset_def)

lemma cull_sender_bits:
  assumes "bs_test (MAX_CLIENTS x) (c_slotId (clients s client)) (ackedCreation (entities s r))"
  shows "\<not> bs_test (MAX_CLIENTS x) (c_slotId (clients s client))
           (ackedCreation (entities (Tick_cull x client r s) r))"
    and "bs_test (MAX_CLIENTS x) (c_slotId (clients s client))
           (didDeletion (entities (Tick_cull x client r s) r))"
  using assms by (simp_all add: Tick_cull_def Let_def bs_test_def bs_reset_def bs_set_def)

text \<open>
  C2: no entity of the entity list has \<open>ackedCreation\<close> and \<open>didDeletion\<close> set for the
  same slot. This holds in the initial state and is kept by every ingress step, the
  handling of one record of a clone packet and of one record of an ack packet, and by
  the cull of \<open>Tick\<close>, the one other place that sets one of the two bits. Where
  \<open>ProcessClonePacket\<close> sets the sender's \<open>ackedCreation\<close> bit it has cleared the sender's
  \<open>didDeletion\<close> bit, and where the cull sets \<open>didDeletion\<close> it has cleared \<open>ackedCreation\<close>.
\<close>

theorem ack_bits_never_both_set:
  "ackInvariant initialState
   \<and> (ackInvariant s \<longrightarrow>
        ackInvariant (stepState x client msgBuf ackPacket s)
        \<and> ackInvariant (snd (snd (ParseAckPacket_step x client ackBuf s)))
        \<and> ackInvariant (Tick_cull x client r s))
   \<and> \<not> bs_test (MAX_CLIENTS x) (c_slotId (clients s client))
         (didDeletion (entities (snd (ProcessClonePacket_accept x client pt oid bb ts r ch out s)) r))
   \<and> (bs_test (MAX_CLIENTS x) (c_slotId (clients s client)) (ackedCreation (entities s r)) \<longrightarrow>
        \<not> bs_test (MAX_CLIENTS x) (c_slotId (clients s client))
            (ackedCreation (entities (Tick_cull x client r s) r)))"
proof -
  have "ackInvariant initialState"
    by (simp add: ackInvariant_def initialState_def)
  then show ?thesis
    using clone_step_inv [of s x client msgBuf ackPacket] ack_step_inv [of s x client ackBuf]
      Tick_cull_inv [of s x client r] accept_sender_bits [of x s client pt oid bb ts r ch out]
      cull_sender_bits(1) [of x s client r]
    by blast
qed

lemma twoClientState_inv: "ackInvariant twoClientState"
  by (simp add: ackInvariant_def ackConsistent_def twoClientState_sel pedEntity_def
      playerEntity2_def blankEntity_def)

theorem ack_bits_never_both_set_witness:
  "ackInvariant twoClientState
   \<and> bs_test (MAX_CLIENTS sampleExternals) (c_slotId (clients twoClientState 1))
        (ackedCreation (entities twoClientState 0))
   \<and> ackInvariant (stepState sampleExternals 1 createZeroPacket (newMessageBuffer 16384) twoClientState)
   \<and> ackInvariant (snd (snd (ParseAckPacket_step sampleExternals 2 ackCreate5Packet twoClientState)))
   \<and> ackInvariant (Tick_cull sampleExternals 1 0 twoClientState)
   \<and> \<not> bs_test (MAX_CLIENTS sampleExternals) (c_slotId (clients twoClientState 1))
         (ackedCreation (entities (Tick_cull sampleExternals 1 0 twoClientState) 0))"
proof -
  have b: "bs_test (MAX_CLIENTS sampleExternals) (c_slotId (clients twoClientState 1))
        (ackedCreation (entities twoClientState 0))"
    by (simp add: bs_test_def sampleExternals_def twoClientState_sel pedEntity_def blankEntity_def)
  show ?thesis
    using ack_bits_never_both_set [of twoClientState sampleExternals 1 createZeroPacket
        "newMessageBuffer 16384" ackCreate5Packet 0]
      ack_bits_never_both_set [of twoClientState sampleExternals 2 createZeroPacket
        "newMessageBuffer 16384" ackCreate5Packet 0]
      twoClientState_inv b
    by blast
qed

end
